theory Spec2Isabelle
  imports Complex_Main
begin

section \<open>JavaScript numbers and values\<close>

text \<open>
  The plan-node component computes with JavaScript numbers: IEEE 754 binary64 values. A
  number is either finite, one of the two infinities, or \<open>NaN\<close>. A finite number is kept as
  the real it denotes, and every arithmetic operation rounds its exact result to the nearest
  double, ties to even, with gradual underflow and with overflow to infinity. The sign of
  zero is not represented: a zero divisor is the positive zero.
\<close>

datatype jsnum = Fin real | PInf | NInf | NaN

text \<open>A node property read with \<open>as number\<close> or typed \<open>number | undefined\<close>.\<close>

datatype jsval = Undefined | Number jsnum

fun toNumber :: "jsval \<Rightarrow> jsnum" where
  "toNumber Undefined = NaN"
| "toNumber (Number x) = x"

fun truthy_num :: "jsnum \<Rightarrow> bool" where
  "truthy_num (Fin x) = (x \<noteq> 0)"
| "truthy_num PInf = True"
| "truthy_num NInf = True"
| "truthy_num NaN = False"

fun truthy :: "jsval \<Rightarrow> bool" where
  "truthy Undefined = False"
| "truthy (Number x) = truthy_num x"

subsection \<open>Rounding to a double\<close>

text \<open>Round to the nearest integer, ties to the even one.\<close>

definition rhe :: "real \<Rightarrow> int" where
  "rhe x =
     (let f = \<lfloor>x\<rfloor>; d = x - of_int f
      in if d < 1 / 2 then f else if 1 / 2 < d then f + 1 else if even f then f else f + 1)"

text \<open>
  The binary exponent \<open>e\<close> of a positive real, \<open>2^e \<le> x < 2^(e+1)\<close>, found by halving or
  doubling at most the given number of times; 1100 steps cover the range of doubles. Below
  the normal range the exponent stays at \<open>-1022\<close>, which gives the subnormal numbers their
  fixed spacing.
\<close>

fun expo :: "nat \<Rightarrow> real \<Rightarrow> int" where
  "expo 0 x = 0"
| "expo (Suc f) x =
     (if 2 \<le> x then expo f (x / 2) + 1 else if x < 1 then expo f (x * 2) - 1 else 0)"

definition exponent :: "real \<Rightarrow> int" where
  "exponent x = max (expo 1100 x) (- 1022)"

text \<open>The spacing of the doubles around \<open>x\<close>: 53 significant bits.\<close>

definition quantum :: "real \<Rightarrow> real" where
  "quantum x = 2 powi (exponent x - 52)"

definition round_pos :: "real \<Rightarrow> jsnum" where
  "round_pos x =
     (if 2 ^ 1024 \<le> x then PInf
      else let y = of_int (rhe (x / quantum x)) * quantum x
           in if 2 ^ 1024 \<le> y then PInf else Fin y)"

fun negate :: "jsnum \<Rightarrow> jsnum" where
  "negate (Fin x) = Fin (- x)"
| "negate PInf = NInf"
| "negate NInf = PInf"
| "negate NaN = NaN"

definition to_double :: "real \<Rightarrow> jsnum" where
  "to_double x = (if x < 0 then negate (round_pos (- x)) else round_pos x)"

text \<open>A real is a double when rounding leaves it as it is.\<close>

definition is_double :: "real \<Rightarrow> bool" where
  "is_double x = (to_double x = Fin x)"

subsection \<open>Operators\<close>

text \<open>The operator \<open>/\<close>.\<close>

fun jsdiv :: "jsnum \<Rightarrow> jsnum \<Rightarrow> jsnum" where
  "jsdiv (Fin a) (Fin b) =
     (if b = 0 then (if a = 0 then NaN else if 0 < a then PInf else NInf) else to_double (a / b))"
| "jsdiv (Fin a) PInf = Fin 0"
| "jsdiv (Fin a) NInf = Fin 0"
| "jsdiv PInf (Fin b) = (if 0 \<le> b then PInf else NInf)"
| "jsdiv NInf (Fin b) = (if 0 \<le> b then NInf else PInf)"
| "jsdiv PInf PInf = NaN"
| "jsdiv PInf NInf = NaN"
| "jsdiv NInf PInf = NaN"
| "jsdiv NInf NInf = NaN"
| "jsdiv NaN y = NaN"
| "jsdiv x NaN = NaN"

text \<open>The operator \<open>*\<close>.\<close>

fun jsmul :: "jsnum \<Rightarrow> jsnum \<Rightarrow> jsnum" where
  "jsmul (Fin a) (Fin b) = to_double (a * b)"
| "jsmul (Fin a) PInf = (if a = 0 then NaN else if 0 < a then PInf else NInf)"
| "jsmul (Fin a) NInf = (if a = 0 then NaN else if 0 < a then NInf else PInf)"
| "jsmul PInf (Fin b) = (if b = 0 then NaN else if 0 < b then PInf else NInf)"
| "jsmul NInf (Fin b) = (if b = 0 then NaN else if 0 < b then NInf else PInf)"
| "jsmul PInf PInf = PInf"
| "jsmul PInf NInf = NInf"
| "jsmul NInf PInf = NInf"
| "jsmul NInf NInf = PInf"
| "jsmul NaN y = NaN"
| "jsmul x NaN = NaN"

text \<open>The operator \<open>+\<close> on two numbers.\<close>

fun jsadd :: "jsnum \<Rightarrow> jsnum \<Rightarrow> jsnum" where
  "jsadd (Fin a) (Fin b) = to_double (a + b)"
| "jsadd (Fin a) PInf = PInf"
| "jsadd (Fin a) NInf = NInf"
| "jsadd PInf (Fin b) = PInf"
| "jsadd NInf (Fin b) = NInf"
| "jsadd PInf PInf = PInf"
| "jsadd NInf NInf = NInf"
| "jsadd PInf NInf = NaN"
| "jsadd NInf PInf = NaN"
| "jsadd NaN y = NaN"
| "jsadd x NaN = NaN"

text \<open>The comparison \<open>x > y\<close>: false as soon as one side is \<open>NaN\<close>.\<close>

fun jsgt :: "jsnum \<Rightarrow> jsnum \<Rightarrow> bool" where
  "jsgt (Fin a) (Fin b) = (b < a)"
| "jsgt (Fin a) NInf = True"
| "jsgt (Fin a) PInf = False"
| "jsgt PInf (Fin b) = True"
| "jsgt PInf NInf = True"
| "jsgt PInf PInf = False"
| "jsgt NInf y = False"
| "jsgt NaN y = False"
| "jsgt x NaN = False"

text \<open>Strict equality \<open>===\<close> on numbers and on values: \<open>NaN\<close> equals nothing.\<close>

definition num_eq :: "jsnum \<Rightarrow> jsnum \<Rightarrow> bool" where
  "num_eq x y = (x \<noteq> NaN \<and> x = y)"

fun strict_eq :: "jsval \<Rightarrow> jsval \<Rightarrow> bool" where
  "strict_eq Undefined Undefined = True"
| "strict_eq (Number x) (Number y) = num_eq x y"
| "strict_eq Undefined (Number y) = False"
| "strict_eq (Number x) Undefined = False"

text \<open>
  \<open>Math.round\<close> rounds to the nearest integer, halves towards plus infinity;
  \<open>Math.floor\<close> rounds down. Both return infinities and \<open>NaN\<close> unchanged. Lodash's
  \<open>_.round\<close> and \<open>_.floor\<close>, called without a precision, are these two functions.
\<close>

fun Math_round :: "jsnum \<Rightarrow> jsnum" where
  "Math_round (Fin x) = Fin (of_int \<lfloor>x + 1 / 2\<rfloor>)"
| "Math_round PInf = PInf"
| "Math_round NInf = NInf"
| "Math_round NaN = NaN"

fun Math_floor :: "jsnum \<Rightarrow> jsnum" where
  "Math_floor (Fin x) = Fin (of_int \<lfloor>x\<rfloor>)"
| "Math_floor PInf = PInf"
| "Math_floor NInf = NInf"
| "Math_floor NaN = NaN"

text \<open>The idiom \<open>x || 0\<close> on a number.\<close>

definition or0 :: "jsnum \<Rightarrow> jsnum" where
  "or0 x = (if truthy_num x then x else Fin 0)"

text \<open>
  \<open>Number.prototype.toString\<close> on the values the component prints: integers (below
  \<open>10^21\<close> in magnitude, printed in plain decimal digits), infinities and \<open>NaN\<close>. The
  component only prints results of \<open>_.floor\<close>; fraction digits and the exponent notation
  of larger magnitudes are not represented.
\<close>

definition digit_char :: "nat \<Rightarrow> char" where
  "digit_char d =
     (if d = 0 then CHR ''0'' else if d = 1 then CHR ''1'' else if d = 2 then CHR ''2''
      else if d = 3 then CHR ''3'' else if d = 4 then CHR ''4'' else if d = 5 then CHR ''5''
      else if d = 6 then CHR ''6'' else if d = 7 then CHR ''7'' else if d = 8 then CHR ''8''
      else CHR ''9'')"

fun decimal :: "nat \<Rightarrow> string" where
  "decimal n = (if n < 10 then [digit_char n] else decimal (n div 10) @ [digit_char (n mod 10)])"

declare decimal.simps [simp del]

fun number_toString :: "jsnum \<Rightarrow> string" where
  "number_toString (Fin x) =
     (if x < 0 then CHR ''-'' # decimal (nat \<lfloor>- x\<rfloor>) else decimal (nat \<lfloor>x\<rfloor>))"
| "number_toString PInf = ''Infinity''"
| "number_toString NInf = ''-Infinity''"
| "number_toString NaN = ''NaN''"

section \<open>Plan, node and component state\<close>

text \<open>
  The property keys of a node that the component's calculations read (members of the
  enumeration \<open>NodeProp\<close>), and the highlight dimensions of \<open>HighlightType\<close>.
\<close>

datatype NodeProp =
    EXCLUSIVE_DURATION | EXCLUSIVE_COST | ACTUAL_ROWS | ACTUAL_LOOPS | ACTUAL_TOTAL_TIME
  | PLANNER_ESTIMATE_FACTOR | HEAP_FETCHES
  | ROWS_REMOVED_BY_FILTER | ROWS_REMOVED_BY_JOIN_FILTER
  | ROWS_REMOVED_BY_FILTER_REVISED | ROWS_REMOVED_BY_JOIN_FILTER_REVISED
  | WORKERS_PLANNED | WORKERS_LAUNCHED | WORKERS_PLANNED_BY_GATHER

datatype HighlightType = NONE | DURATION | ROWS | COST

text \<open>
  A node is an object: its number-valued properties are kept as an association list in
  insertion order (the order of \<open>Object.keys\<close>); the worker list under \<open>NodeProp.WORKERS\<close>,
  the only array the calculations read, is a field of its own.
\<close>

type_synonym Worker = "(string \<times> jsval) list"

record Node =
  props :: "(NodeProp \<times> jsval) list"
  workers :: "Worker list option"

definition node_get :: "Node \<Rightarrow> NodeProp \<Rightarrow> jsval" where
  "node_get n k = (case map_of (props n) k of None \<Rightarrow> Undefined | Some v \<Rightarrow> v)"

definition Object_keys :: "Node \<Rightarrow> NodeProp list" where
  "Object_keys n = map fst (props n)"

record PlanStats =
  executionTime :: jsval
  maxDuration :: jsval
  maxRows :: jsval
  maxCost :: jsval

record Content =
  Plan :: "Node option"
  maxTotalCost :: jsval

record IPlan =
  planStats :: PlanStats
  content :: "Content option"

text \<open>
  The display filters \<open>duration\<close>, \<open>rows\<close> and \<open>cost\<close> are imported from another module.
  A label is kept as the filter and the number it was applied to, standing for the string
  the filter returns.
\<close>

datatype Label = duration jsnum | rows jsnum | cost jsnum

text \<open>
  The refs of one mounted component. \<open>highlightValue\<close> is \<open>string | null\<close> and
  \<open>rowsRemovedPercentString\<close> is \<open>string | undefined\<close>: \<open>None\<close> is \<open>null\<close>, respectively
  \<open>undefined\<close>.
\<close>

record State =
  executionTimePercent :: jsnum
  costPercent :: jsnum
  barWidth :: jsnum
  highlightValue :: "Label option"
  rowsRemoved :: jsval
  rowsRemovedPercent :: jsnum
  rowsRemovedPercentString :: "string option"

definition initial :: State where
  "initial = \<lparr> executionTimePercent = NaN, costPercent = NaN, barWidth = Fin 0,
     highlightValue = None, rowsRemoved = Number NaN, rowsRemovedPercent = NaN,
     rowsRemovedPercentString = None \<rparr>"

datatype error = TypeError

section \<open>Metrics\<close>

text \<open>
  \<open>calculateDuration\<close>: the execution time is the plan's, or, when that is falsy, the
  root node's total time, read through optional chaining.
\<close>

definition root_total_time :: "IPlan \<Rightarrow> jsval" where
  "root_total_time plan =
     (case content plan of
        None \<Rightarrow> Undefined
      | Some c \<Rightarrow> (case Plan c of None \<Rightarrow> Undefined | Some rootNode \<Rightarrow> node_get rootNode ACTUAL_TOTAL_TIME))"

definition execution_time :: "IPlan \<Rightarrow> jsval" where
  "execution_time plan =
     (if truthy (executionTime (planStats plan)) then executionTime (planStats plan)
      else root_total_time plan)"

definition calculateDuration :: "IPlan \<Rightarrow> Node \<Rightarrow> State \<Rightarrow> State" where
  "calculateDuration plan n s =
     s\<lparr>executionTimePercent :=
         Math_round (jsmul (jsdiv (toNumber (node_get n EXCLUSIVE_DURATION))
                                  (toNumber (execution_time plan))) (Fin 100))\<rparr>"

text \<open>\<open>calculateCost\<close> reads \<open>plan.content.maxTotalCost\<close> without optional chaining.\<close>

definition calculateCost :: "IPlan \<Rightarrow> Node \<Rightarrow> State \<Rightarrow> error + State" where
  "calculateCost plan n s =
     (case content plan of
        None \<Rightarrow> Inl TypeError
      | Some c \<Rightarrow>
          Inr (s\<lparr>costPercent :=
                 Math_round (jsmul (jsdiv (toNumber (node_get n EXCLUSIVE_COST))
                                          (toNumber (maxTotalCost c))) (Fin 100))\<rparr>))"

text \<open>
  \<open>rowsRemovedProp\<close>: the first key of the node that is one of the two rows-removed keys.
  The source then maps the key to the name of its enumeration member and, in
  \<open>calculateRowsRemoved\<close>, the name back to the key; the result here is the key itself,
  \<open>None\<close> where the source has \<open>undefined\<close>.
\<close>

definition rowsRemovedProp :: "Node \<Rightarrow> NodeProp option" where
  "rowsRemovedProp n =
     find (\<lambda>key. key = ROWS_REMOVED_BY_FILTER_REVISED \<or> key = ROWS_REMOVED_BY_JOIN_FILTER_REVISED)
          (Object_keys n)"

definition calculateRowsRemoved :: "Node \<Rightarrow> State \<Rightarrow> State" where
  "calculateRowsRemoved n s =
     (case rowsRemovedProp n of
        None \<Rightarrow> s
      | Some p \<Rightarrow>
          (let removed = node_get n p;
               actual = node_get n ACTUAL_ROWS;
               pct = Math_floor (jsmul (jsdiv (toNumber removed)
                                              (jsadd (toNumber removed) (toNumber actual))) (Fin 100))
           in s\<lparr>rowsRemoved := removed,
                rowsRemovedPercent := pct,
                rowsRemovedPercentString :=
                  Some (if num_eq pct (Fin 100) then ''>99''
                        else if num_eq pct (Fin 0) then ''<1''
                        else number_toString pct)\<rparr>))"

section \<open>Highlight bar\<close>

definition bar_percent :: "jsnum \<Rightarrow> jsval \<Rightarrow> jsnum" where
  "bar_percent v m = Math_round (jsmul (jsdiv v (toNumber m)) (Fin 100))"

fun calculateBar :: "HighlightType \<Rightarrow> IPlan \<Rightarrow> Node \<Rightarrow> State \<Rightarrow> State" where
  "calculateBar DURATION plan n s =
     (case node_get n EXCLUSIVE_DURATION of
        Undefined \<Rightarrow> s\<lparr>highlightValue := None\<rparr>
      | Number v \<Rightarrow> s\<lparr>barWidth := bar_percent v (maxDuration (planStats plan)),
                       highlightValue := Some (duration v)\<rparr>)"
| "calculateBar ROWS plan n s =
     (case node_get n ACTUAL_ROWS of
        Undefined \<Rightarrow> s\<lparr>highlightValue := None\<rparr>
      | Number v \<Rightarrow> s\<lparr>barWidth := or0 (bar_percent v (maxRows (planStats plan))),
                       highlightValue := Some (rows v)\<rparr>)"
| "calculateBar COST plan n s =
     (case node_get n EXCLUSIVE_COST of
        Undefined \<Rightarrow> s\<lparr>highlightValue := None\<rparr>
      | Number v \<Rightarrow> s\<lparr>barWidth := bar_percent v (maxCost (planStats plan)),
                       highlightValue := Some (cost v)\<rparr>)"
| "calculateBar NONE plan n s = s"

text \<open>The template renders the bar under this \<open>v-if\<close>.\<close>

definition bar_rendered :: "HighlightType \<Rightarrow> State \<Rightarrow> bool" where
  "bar_rendered ht s = (ht \<noteq> NONE \<and> highlightValue s \<noteq> None)"

text \<open>
  \<open>onBeforeMount\<close> runs the calculations once, on the initial refs, in the order of the
  source; \<open>calculateProps\<close> and the assignments that follow write none of the refs kept
  here. Afterwards only \<open>calculateBar\<close> runs again, whenever the highlight type of the view
  options changes.
\<close>

definition onBeforeMount :: "HighlightType \<Rightarrow> IPlan \<Rightarrow> Node \<Rightarrow> error + State" where
  "onBeforeMount ht plan n =
     (case calculateCost plan n (calculateDuration plan n (calculateBar ht plan n initial)) of
        Inl e \<Rightarrow> Inl e
      | Inr s \<Rightarrow> Inr (calculateRowsRemoved n s))"

section \<open>Severity classes\<close>

text \<open>
  Each classifier sets a local \<open>c\<close> to 4, 3 or 2, or leaves it \<open>undefined\<close>, and returns
  the string \<open>"c-" + c\<close> when \<open>c\<close> is truthy and \<open>false\<close> otherwise. \<open>None\<close> is \<open>false\<close>.
\<close>

definition class_string :: "nat option \<Rightarrow> string option" where
  "class_string c = (case c of None \<Rightarrow> None | Some k \<Rightarrow> if k = 0 then None else Some (''c-'' @ decimal k))"

definition durationClass :: "State \<Rightarrow> string option" where
  "durationClass s =
     (let i = executionTimePercent s in
      class_string (if jsgt i (Fin 90) then Some 4 else if jsgt i (Fin 40) then Some 3
                    else if jsgt i (Fin 10) then Some 2 else None))"

definition estimationClass :: "Node \<Rightarrow> string option" where
  "estimationClass n =
     (let i = toNumber (node_get n PLANNER_ESTIMATE_FACTOR) in
      class_string (if jsgt i (Fin 1000) then Some 4 else if jsgt i (Fin 100) then Some 3
                    else if jsgt i (Fin 10) then Some 2 else None))"

definition costClass :: "State \<Rightarrow> string option" where
  "costClass s =
     (let i = costPercent s in
      class_string (if jsgt i (Fin 90) then Some 4 else if jsgt i (Fin 40) then Some 3
                    else if jsgt i (Fin 10) then Some 2 else None))"

definition rowsRemovedComposite :: "State \<Rightarrow> jsnum" where
  "rowsRemovedComposite s = jsmul (rowsRemovedPercent s) (executionTimePercent s)"

definition rowsRemovedClass :: "State \<Rightarrow> string option" where
  "rowsRemovedClass s =
     (let i = rowsRemovedComposite s in
      class_string (if jsgt i (Fin 2000) then Some 4 else if jsgt i (Fin 500) then Some 3
                    else None))"

definition heapFetchesRatio :: "Node \<Rightarrow> jsnum" where
  "heapFetchesRatio n =
     jsmul (jsdiv (toNumber (node_get n HEAP_FETCHES))
                  (jsadd (jsadd (toNumber (node_get n ACTUAL_ROWS))
                                (or0 (toNumber (node_get n ROWS_REMOVED_BY_FILTER))))
                         (or0 (toNumber (node_get n ROWS_REMOVED_BY_JOIN_FILTER)))))
           (Fin 100)"

definition heapFetchesClass :: "Node \<Rightarrow> string option" where
  "heapFetchesClass n =
     (let i = heapFetchesRatio n in
      class_string (if jsgt i (Fin 90) then Some 4 else if jsgt i (Fin 40) then Some 3
                    else if jsgt i (Fin 10) then Some 2 else None))"

text \<open>A badge of the template is rendered under \<open>v-if\<close> of its class: a string is truthy.\<close>

definition badge_rendered :: "string option \<Rightarrow> bool" where
  "badge_rendered c = (case c of None \<Rightarrow> False | Some str \<Rightarrow> str \<noteq> [])"

text \<open>
  The tiers of the specification: the classes \<open>c-2\<close>, \<open>c-3\<close> and \<open>c-4\<close> are its tiers low,
  medium and high; \<open>false\<close> is tier none.
\<close>

datatype Tier = TierNone | Low | Medium | High

definition tier_of_class :: "string option \<Rightarrow> Tier option" where
  "tier_of_class c =
     (if c = None then Some TierNone
      else if c = Some ''c-2'' then Some Low
      else if c = Some ''c-3'' then Some Medium
      else if c = Some ''c-4'' then Some High
      else None)"

fun tier_rank :: "Tier \<Rightarrow> nat" where
  "tier_rank TierNone = 0"
| "tier_rank Low = 1"
| "tier_rank Medium = 2"
| "tier_rank High = 3"

text \<open>The order on defined metric values: \<open>NaN\<close> is not comparable.\<close>

fun jsle :: "jsnum \<Rightarrow> jsnum \<Rightarrow> bool" where
  "jsle (Fin a) (Fin b) = (a \<le> b)"
| "jsle NInf (Fin b) = True"
| "jsle NInf NInf = True"
| "jsle NInf PInf = True"
| "jsle (Fin a) PInf = True"
| "jsle PInf PInf = True"
| "jsle (Fin a) NInf = False"
| "jsle PInf (Fin b) = False"
| "jsle PInf NInf = False"
| "jsle NaN y = False"
| "jsle x NaN = False"

text \<open>One class is at most as severe as another; both must be classes the classifiers produce.\<close>

definition tier_le :: "string option \<Rightarrow> string option \<Rightarrow> bool" where
  "tier_le c c' =
     (case tier_of_class c of
        None \<Rightarrow> False
      | Some t \<Rightarrow> (case tier_of_class c' of None \<Rightarrow> False | Some t' \<Rightarrow> tier_rank t \<le> tier_rank t'))"

text \<open>A row count read from a node: absent, or a finite double that is not negative.\<close>

fun count_or_absent :: "jsval \<Rightarrow> bool" where
  "count_or_absent Undefined = True"
| "count_or_absent (Number (Fin x)) = (0 \<le> x \<and> is_double x)"
| "count_or_absent (Number PInf) = False"
| "count_or_absent (Number NInf) = False"
| "count_or_absent (Number NaN) = False"

section \<open>Workers and execution\<close>

definition workersLaunchedCount :: "Node \<Rightarrow> jsnum" where
  "workersLaunchedCount n = (case workers n of None \<Rightarrow> NaN | Some ws \<Rightarrow> Fin (of_nat (length ws)))"

definition workersPlannedCount :: "Node \<Rightarrow> jsval" where
  "workersPlannedCount n = node_get n WORKERS_PLANNED_BY_GATHER"

definition allWorkersLaunched :: "Node \<Rightarrow> bool" where
  "allWorkersLaunched n =
     (\<not> truthy (node_get n WORKERS_LAUNCHED)
      \<or> strict_eq (node_get n WORKERS_PLANNED) (node_get n WORKERS_LAUNCHED))"

definition isNeverExecuted :: "IPlan \<Rightarrow> Node \<Rightarrow> bool" where
  "isNeverExecuted plan n =
     (truthy (executionTime (planStats plan)) \<and> \<not> truthy (node_get n ACTUAL_LOOPS))"

section \<open>Double arithmetic\<close>

subsection \<open>Rounding to an integer\<close>

lemma rhe_bounds: "\<lfloor>x\<rfloor> \<le> rhe x" "rhe x \<le> \<lfloor>x\<rfloor> + 1"
  by (simp_all add: rhe_def Let_def)

lemma rhe_of_int [simp]: "rhe (of_int n) = n"
  by (simp add: rhe_def)

lemma rhe_mono: "x \<le> y \<Longrightarrow> rhe x \<le> rhe y"
proof -
  assume le: "x \<le> y"
  then have fl: "\<lfloor>x\<rfloor> \<le> \<lfloor>y\<rfloor>" by (rule floor_mono)
  show ?thesis
  proof (cases "\<lfloor>x\<rfloor> = \<lfloor>y\<rfloor>")
    case True
    then have "x - of_int \<lfloor>x\<rfloor> \<le> y - of_int \<lfloor>y\<rfloor>" using le by simp
    then show ?thesis using True by (auto simp: rhe_def Let_def)
  next
    case False
    with fl have "\<lfloor>x\<rfloor> + 1 \<le> \<lfloor>y\<rfloor>" by simp
    with rhe_bounds(2) [of x] rhe_bounds(1) [of y] show ?thesis by linarith
  qed
qed

subsection \<open>The binary exponent\<close>

lemma p2_add1: "(2::real) powi (e + 1) = 2 powi e * 2"
  by (rule power_int_add_1) simp

lemma p2_sub1: "(2::real) powi (e - 1) * 2 = 2 powi e"
  using p2_add1 [of "e - 1"] by simp

lemma p2_neg_Suc: "(2::real) powi (- int (Suc f)) * 2 = 2 powi (- int f)"
  using p2_add1 [of "- int (Suc f)"] by simp

lemma p2_neg_le1: "(2::real) powi (- int f) \<le> 1"
  using power_int_increasing [of "- int f" 0 "2::real"] by simp

lemma p2_mono: "a \<le> b \<Longrightarrow> (2::real) powi a \<le> 2 powi b"
  by (rule power_int_increasing) simp_all

lemma p2_less_cancel: "(2::real) powi a < 2 powi b \<Longrightarrow> a < b"
  using p2_mono [of b a] by (cases "a < b") auto

lemma expo_upper: "x < 2 powi (int f + 1) \<Longrightarrow> x < 2 powi (expo f x + 1)"
proof (induction f arbitrary: x)
  case 0
  then show ?case by simp
next
  case (Suc f)
  show ?case
  proof (cases "2 \<le> x")
    case True
    have "x < 2 powi (int f + 1) * 2"
      using Suc.prems p2_add1 [of "int f + 1"] by (simp add: add.commute)
    then have "x / 2 < 2 powi (int f + 1)" by simp
    from Suc.IH [OF this] have "x < 2 powi (expo f (x / 2) + 1) * 2" by simp
    then show ?thesis using True p2_add1 [of "expo f (x / 2) + 1"] by simp
  next
    case False
    show ?thesis
    proof (cases "x < 1")
      case True
      have "x < 2 ^ f" using True one_le_power [of "2::real" f] by linarith
      then have "x * 2 < 2 powi int f * 2" by simp
      then have "x * 2 < 2 powi (int f + 1)" using p2_add1 [of "int f"] by simp
      from Suc.IH [OF this] have "x * 2 < 2 powi (expo f (x * 2)) * 2"
        using p2_add1 [of "expo f (x * 2)"] by simp
      then show ?thesis using True False by simp
    next
      case F2: False
      with False show ?thesis by simp
    qed
  qed
qed

lemma expo_lower: "2 powi (- int f) \<le> x \<Longrightarrow> 2 powi (expo f x) \<le> x"
proof (induction f arbitrary: x)
  case 0
  then show ?case by simp
next
  case (Suc f)
  show ?case
  proof (cases "2 \<le> x")
    case True
    have "2 powi (- int f) \<le> x / 2" using True p2_neg_le1 [of f] by simp
    from Suc.IH [OF this] have "2 powi (expo f (x / 2)) * 2 \<le> x" by simp
    then show ?thesis using True p2_add1 [of "expo f (x / 2)"] by simp
  next
    case False
    show ?thesis
    proof (cases "x < 1")
      case True
      have "2 powi (- int f) \<le> x * 2" using Suc.prems p2_neg_Suc [of f] by simp
      from Suc.IH [OF this] have "2 powi (expo f (x * 2)) \<le> x * 2" .
      then have "2 powi (expo f (x * 2) - 1) \<le> x"
        using p2_sub1 [of "expo f (x * 2)"] by simp
      then show ?thesis using True False by simp
    next
      case F2: False
      with False show ?thesis by simp
    qed
  qed
qed

lemma expo_exhausted: "x < 2 powi (- int f) \<Longrightarrow> expo f x = - int f"
proof (induction f arbitrary: x)
  case 0
  then show ?case by simp
next
  case (Suc f)
  have x1: "x < 1" "\<not> 2 \<le> x" using Suc.prems p2_neg_le1 [of "Suc f"] by simp_all
  have "x * 2 < 2 powi (- int f)" using Suc.prems p2_neg_Suc [of f] by simp
  from Suc.IH [OF this] show ?case using x1 by simp
qed


lemma exponent_ge: "- 1022 \<le> exponent x"
  by (simp add: exponent_def)

lemma exponent_upper: "x < 2 ^ 1024 \<Longrightarrow> x < 2 powi (exponent x + 1)"
proof -
  assume "x < 2 ^ 1024"
  also have "(2::real) ^ 1024 \<le> 2 powi (int 1100 + 1)"
    using p2_mono [of 1024 "int 1100 + 1"] by simp
  finally have "x < 2 powi (expo 1100 x + 1)" by (rule expo_upper)
  also have "\<dots> \<le> 2 powi (exponent x + 1)"
    by (rule p2_mono) (simp add: exponent_def)
  finally show ?thesis .
qed

lemma exponent_subnormal: "x < 2 powi (- 1022) \<Longrightarrow> exponent x = - 1022"
proof (cases "x < 2 powi (- int 1100)")
  case True
  from expo_exhausted [OF True] show ?thesis by (simp add: exponent_def)
next
  case False
  assume sub: "x < 2 powi (- 1022)"
  from False have "2 powi (expo 1100 x) \<le> x" by (intro expo_lower) simp
  with sub have "(2::real) powi (expo 1100 x) < 2 powi (- 1022)" by simp
  from p2_less_cancel [OF this] show ?thesis by (simp add: exponent_def)
qed

lemma exponent_lower: "2 powi (- 1022) \<le> x \<Longrightarrow> 2 powi (exponent x) \<le> x"
proof -
  assume n: "2 powi (- 1022) \<le> x"
  have "(2::real) powi (- int 1100) \<le> 2 powi (- 1022)" by (rule p2_mono) simp
  with n have "2 powi (- int 1100) \<le> x" by simp
  from expo_lower [OF this] have l: "2 powi (expo 1100 x) \<le> x" .
  show ?thesis
  proof (cases "- 1022 \<le> expo 1100 x")
    case True
    then show ?thesis using l by (simp add: exponent_def max_def)
  next
    case False
    then show ?thesis using n by (simp add: exponent_def max_def)
  qed
qed

lemma exponent_unique:
  assumes "2 powi e \<le> x" "x < 2 powi (e + 1)" "- 1022 \<le> e" "e \<le> 1023"
  shows "exponent x = e"
proof -
  have "(2::real) powi (e + 1) \<le> 2 powi 1024" using assms(4) by (intro p2_mono) simp
  with assms(2) have big: "x < 2 ^ 1024" by simp
  have "(2::real) powi (- 1022) \<le> 2 powi e" using assms(3) by (intro p2_mono)
  with assms(1) have n: "2 powi (- 1022) \<le> x" by simp
  from exponent_lower [OF n] assms(2) have "(2::real) powi (exponent x) < 2 powi (e + 1)" by simp
  from p2_less_cancel [OF this] have a: "exponent x \<le> e" by simp
  from exponent_upper [OF big] assms(1) have "(2::real) powi e < 2 powi (exponent x + 1)" by simp
  from p2_less_cancel [OF this] have "e \<le> exponent x" by simp
  with a show ?thesis by simp
qed

lemma exponent_mono:
  assumes "x \<le> y" "y < 2 ^ 1024"
  shows "exponent x \<le> exponent y"
proof (cases "x < 2 powi (- 1022)")
  case True
  from exponent_subnormal [OF this] exponent_ge [of y] show ?thesis by simp
next
  case False
  then have "2 powi (exponent x) \<le> x" by (intro exponent_lower) simp
  also note assms(1)
  also note exponent_upper [OF assms(2)]
  finally have "exponent x < exponent y + 1" by (rule p2_less_cancel)
  then show ?thesis by simp
qed


subsection \<open>Rounding is monotonic and keeps doubles\<close>

lemma quantum_pos: "0 < quantum x"
  by (simp add: quantum_def)

lemma quantum_scale: "quantum x * 2 ^ 52 = 2 powi (exponent x)"
proof -
  have "(2::real) powi (exponent x - 52 + 52) = 2 powi (exponent x - 52) * 2 powi 52"
    by (rule power_int_add) simp
  then show ?thesis by (simp add: quantum_def)
qed

lemma grid_upper:
  assumes "x < 2 ^ 1024"
  shows "of_int (rhe (x / quantum x)) * quantum x \<le> 2 powi (exponent x + 1)"
proof -
  have "x < 2 powi (exponent x) * 2"
    using exponent_upper [OF assms] p2_add1 [of "exponent x"] by simp
  then have "x < quantum x * 2 ^ 53" using quantum_scale [of x] by simp
  then have "x / quantum x \<le> of_int (2 ^ 53)"
    using quantum_pos [of x] by (simp add: divide_le_eq mult.commute)
  from rhe_mono [OF this] have "rhe (x / quantum x) \<le> 2 ^ 53" by (simp only: rhe_of_int)
  then have "(of_int (rhe (x / quantum x)) :: real) \<le> of_int (2 ^ 53)" by (simp only: of_int_le_iff)
  then have "of_int (rhe (x / quantum x)) * quantum x \<le> 2 ^ 53 * quantum x"
    using quantum_pos [of x] by simp
  also have "\<dots> = 2 powi (exponent x) * 2" using quantum_scale [of x] by simp
  finally show ?thesis using p2_add1 [of "exponent x"] by simp
qed

lemma grid_lower:
  assumes "2 powi (- 1022) \<le> x"
  shows "2 powi (exponent x) \<le> of_int (rhe (x / quantum x)) * quantum x"
proof -
  have "quantum x * 2 ^ 52 \<le> x" using exponent_lower [OF assms] quantum_scale [of x] by simp
  then have "of_int (2 ^ 52) \<le> x / quantum x"
    using quantum_pos [of x] by (simp add: le_divide_eq mult.commute)
  from rhe_mono [OF this] have "2 ^ 52 \<le> rhe (x / quantum x)" by (simp only: rhe_of_int)
  then have "(of_int (2 ^ 52) :: real) \<le> of_int (rhe (x / quantum x))" by (simp only: of_int_le_iff)
  then have "2 ^ 52 * quantum x \<le> of_int (rhe (x / quantum x)) * quantum x"
    using quantum_pos [of x] by simp
  then show ?thesis using quantum_scale [of x] by (simp add: mult.commute)
qed

lemma grid_nonneg: "0 \<le> x \<Longrightarrow> 0 \<le> of_int (rhe (x / quantum x)) * quantum x"
proof -
  assume "0 \<le> x"
  then have "of_int 0 \<le> x / quantum x" using quantum_pos [of x] by simp
  from rhe_mono [OF this] have "0 \<le> rhe (x / quantum x)" by (simp only: rhe_of_int)
  then show ?thesis using quantum_pos [of x] by simp
qed

lemma round_pos_mono:
  assumes "0 \<le> x" "x \<le> y"
  shows "jsle (round_pos x) (round_pos y)"
proof (cases "2 ^ 1024 \<le> y")
  case True
  then have "round_pos y = PInf" by (simp add: round_pos_def)
  then show ?thesis by (cases "round_pos x") (simp_all add: round_pos_def Let_def split: if_splits)
next
  case False
  then have ybig: "y < 2 ^ 1024" by simp
  with assms have xbig: "x < 2 ^ 1024" by simp
  let ?gx = "of_int (rhe (x / quantum x)) * quantum x"
  let ?gy = "of_int (rhe (y / quantum y)) * quantum y"
  have rx: "round_pos x = (if 2 ^ 1024 \<le> ?gx then PInf else Fin ?gx)"
    using xbig by (simp add: round_pos_def Let_def)
  have ry: "round_pos y = (if 2 ^ 1024 \<le> ?gy then PInf else Fin ?gy)"
    using ybig by (simp add: round_pos_def Let_def)
  have "?gx \<le> ?gy"
  proof (cases "exponent x = exponent y")
    case True
    then have q: "quantum x = quantum y" by (simp add: quantum_def)
    have "x / quantum y \<le> y / quantum y"
      using assms(2) quantum_pos [of y] by (simp add: divide_right_mono)
    from rhe_mono [OF this] show ?thesis using quantum_pos [of y] q by simp
  next
    case False
    with exponent_mono [OF assms(2) ybig] have lt: "exponent x + 1 \<le> exponent y" by simp
    have "\<not> y < 2 powi (- 1022)"
      using exponent_subnormal [of y] exponent_ge [of x] lt by auto
    then have "2 powi (exponent y) \<le> ?gy" by (intro grid_lower) simp
    moreover have "?gx \<le> 2 powi (exponent x + 1)" by (rule grid_upper [OF xbig])
    moreover have "(2::real) powi (exponent x + 1) \<le> 2 powi (exponent y)" by (rule p2_mono [OF lt])
    ultimately show ?thesis by linarith
  qed
  then show ?thesis unfolding rx ry by auto
qed

lemma round_pos_exact:
  assumes x: "x = of_int m * 2 powi k" and m: "0 \<le> m" "m < 2 ^ 53" and k: "- 1074 \<le> k"
    and big: "x < 2 ^ 1024"
  shows "round_pos x = Fin x"
proof -
  have "exponent x - 52 \<le> k"
  proof (cases "x < 2 powi (- 1022)")
    case True
    from exponent_subnormal [OF this] k show ?thesis by simp
  next
    case False
    then have "2 powi (exponent x) \<le> x" by (intro exponent_lower) simp
    also have "x < 2 ^ 53 * 2 powi k"
    proof -
      have "(of_int m :: real) < of_int (2 ^ 53)" using m(2) by (simp only: of_int_less_iff)
      then show ?thesis unfolding x by simp
    qed
    also have "(2::real) ^ 53 * 2 powi k = 2 powi (53 + k)"
      by (subst power_int_add) simp_all
    finally have "exponent x < 53 + k" by (rule p2_less_cancel)
    then show ?thesis by simp
  qed
  then obtain j :: nat where j: "k = exponent x - 52 + int j"
    by (metis add.commute diff_add_cancel nonneg_int_cases diff_ge_0_iff_ge)
  define q where "q = quantum x"
  have qpos: "0 < q" unfolding q_def by (rule quantum_pos)
  have "(2::real) powi k = 2 powi (exponent x - 52) * 2 powi (int j)"
    unfolding j by (rule power_int_add) simp
  then have pk: "2 powi k = q * 2 ^ j" by (simp add: quantum_def q_def)
  have xq: "x = of_int m * (q * 2 ^ j)" using x pk by simp
  have "x / q = of_int (m * 2 ^ j)"
    using qpos by (subst xq) simp
  then have "rhe (x / q) = m * 2 ^ j" by (simp only: rhe_of_int)
  then have "of_int (rhe (x / q)) * q = x"
    by (subst (2) xq) simp
  then show ?thesis using big by (simp add: round_pos_def Let_def q_def)
qed

lemma round_pos_eval:
  assumes "2 powi e \<le> x" "x < 2 powi (e + 1)" "- 1022 \<le> e" "e \<le> 1022"
  shows "round_pos x = Fin (of_int (rhe (x / 2 powi (e - 52))) * 2 powi (e - 52))"
proof -
  have e: "exponent x = e" using assms by (intro exponent_unique) simp_all
  have "(2::real) powi (e + 1) \<le> 2 powi 1023" using assms(4) by (intro p2_mono) simp
  with assms(2) have x1023: "x < 2 ^ 1023" by simp
  then have big: "x < 2 ^ 1024" by (rule less_trans) simp
  have "of_int (rhe (x / quantum x)) * quantum x \<le> 2 powi (e + 1)"
    using grid_upper [OF big] e by simp
  also have "(2::real) powi (e + 1) \<le> 2 powi 1023" using assms(4) by (intro p2_mono) simp
  also have "(2::real) powi 1023 < 2 ^ 1024" by simp
  finally have "\<not> 2 ^ 1024 \<le> of_int (rhe (x / quantum x)) * quantum x" by simp
  then show ?thesis using big e by (simp add: round_pos_def Let_def quantum_def)
qed



lemma to_double_mono:
  "0 \<le> x \<Longrightarrow> x \<le> y \<Longrightarrow> jsle (to_double x) (to_double y)"
  by (simp add: to_double_def round_pos_mono)

lemma to_double_exact:
  assumes "x = of_int m * 2 powi k" "\<bar>m\<bar> < 2 ^ 53" "- 1074 \<le> k" "\<bar>x\<bar> < 2 ^ 1024"
  shows "to_double x = Fin x"
proof (cases "x < 0")
  case False
  have p: "0 < (2::real) powi k" by simp
  have "0 \<le> m"
  proof (rule ccontr)
    assume "\<not> 0 \<le> m"
    then have "(of_int m :: real) < 0" by simp
    then have "of_int m * 2 powi k < (0::real)" using p by (rule mult_neg_pos)
    with False assms(1) show False by simp
  qed
  from round_pos_exact [OF assms(1) this _ assms(3)] assms(2,4) False
  show ?thesis by (simp add: to_double_def)
next
  case True
  have p: "0 < (2::real) powi k" by simp
  have "m < 0"
  proof (rule ccontr)
    assume "\<not> m < 0"
    then have "0 \<le> (of_int m :: real)" by simp
    then have "0 \<le> of_int m * (2::real) powi k" using p by simp
    with True assms(1) show False by simp
  qed
  then have m: "0 \<le> - m" "- m < 2 ^ 53" using assms(2) by simp_all
  have "- x = of_int (- m) * 2 powi k" using assms(1) by simp
  from round_pos_exact [OF this m assms(3)] assms(4) True
  show ?thesis by (simp add: to_double_def)
qed

lemma to_double_of_int:
  assumes "\<bar>n\<bar> < 2 ^ 53"
  shows "to_double (of_int n) = Fin (of_int n)"
proof (rule to_double_exact [of _ n 0])
  show "real_of_int n = of_int n * 2 powi 0" by simp
  show "\<bar>n\<bar> < 2 ^ 53" by (rule assms)
  show "- 1074 \<le> (0::int)" by simp
  have "\<bar>real_of_int n\<bar> = of_int \<bar>n\<bar>" by simp
  also have "\<dots> < of_int (2 ^ 53)" using assms by (simp only: of_int_less_iff)
  also have "(of_int (2 ^ 53) :: real) < 2 ^ 1024" by simp
  finally show "\<bar>real_of_int n\<bar> < 2 ^ 1024" .
qed

lemma to_double_0 [simp]: "to_double 0 = Fin 0"
  using to_double_of_int [of 0] by simp

lemma to_double_1 [simp]: "to_double 1 = Fin 1"
  using to_double_of_int [of 1] by simp

lemma to_double_numeral [simp]:
  "(numeral n :: int) < 2 ^ 53 \<Longrightarrow> to_double (numeral n) = Fin (numeral n)"
  using to_double_of_int [of "numeral n"] by simp

lemma is_double_of_int: "\<bar>n\<bar> < 2 ^ 53 \<Longrightarrow> is_double (of_int n)"
  by (simp add: is_double_def to_double_of_int)

lemma is_double_0 [simp]: "is_double 0"
  by (simp add: is_double_def)

lemma is_double_numeral [simp]: "(numeral n :: int) < 2 ^ 53 \<Longrightarrow> is_double (numeral n)"
  by (simp add: is_double_def)

lemma to_double_eval:
  assumes "2 powi e \<le> x" "x < 2 powi (e + 1)" "- 1022 \<le> e" "e \<le> 1022"
  shows "to_double x = Fin (of_int (rhe (x / 2 powi (e - 52))) * 2 powi (e - 52))"
proof -
  have "0 < (2::real) powi e" by simp
  with assms(1) have "\<not> x < 0" by linarith
  then show ?thesis using round_pos_eval [OF assms] by (simp add: to_double_def)
qed

lemma jsle_Fin_cases:
  "jsle (Fin a) z \<Longrightarrow> (\<exists>y. z = Fin y \<and> a \<le> y) \<or> z = PInf"
  by (cases z) simp_all

lemma jsle_between:
  "jsle (Fin a) z \<Longrightarrow> jsle z (Fin b) \<Longrightarrow> \<exists>y. z = Fin y \<and> a \<le> y \<and> y \<le> b"
  by (cases z) simp_all

lemma to_double_nonneg: "0 \<le> x \<Longrightarrow> (\<exists>y. to_double x = Fin y \<and> 0 \<le> y) \<or> to_double x = PInf"
  using to_double_mono [of 0 x] by (simp add: jsle_Fin_cases)

lemma to_double_between:
  assumes "0 \<le> a" "a \<le> x" "x \<le> b" "is_double a" "is_double b"
  shows "\<exists>y. to_double x = Fin y \<and> a \<le> y \<and> y \<le> b"
proof -
  have "jsle (Fin a) (to_double x)"
    using to_double_mono [OF assms(1,2)] assms(4) by (simp add: is_double_def)
  moreover have "jsle (to_double x) (Fin b)"
    using to_double_mono [of x b] assms by (simp add: is_double_def)
  ultimately show ?thesis by (rule jsle_between)
qed


section \<open>Facts about the classifiers\<close>

lemma decimal_digit [simp]: "n < 10 \<Longrightarrow> decimal n = [digit_char n]"
  by (subst decimal.simps) simp

lemma class_string_values:
  "class_string None = None"
  "class_string (Some 2) = Some ''c-2''"
  "class_string (Some 3) = Some ''c-3''"
  "class_string (Some 4) = Some ''c-4''"
  by (simp_all add: class_string_def digit_char_def)

lemma tier_of_class_values:
  "tier_of_class None = Some TierNone"
  "tier_of_class (Some ''c-2'') = Some Low"
  "tier_of_class (Some ''c-3'') = Some Medium"
  "tier_of_class (Some ''c-4'') = Some High"
  by (simp_all add: tier_of_class_def)

lemma ladder3_tier:
  "tier_of_class (class_string (if jsgt i (Fin hi) then Some 4 else if jsgt i (Fin mid) then Some 3
                    else if jsgt i (Fin lo) then Some 2 else None)) =
   Some (if jsgt i (Fin hi) then High else if jsgt i (Fin mid) then Medium
         else if jsgt i (Fin lo) then Low else TierNone)"
  by (simp add: class_string_values tier_of_class_values)

lemma ladder2_tier:
  "tier_of_class (class_string (if jsgt i (Fin hi) then Some 4 else if jsgt i (Fin mid) then Some 3
                    else None)) =
   Some (if jsgt i (Fin hi) then High else if jsgt i (Fin mid) then Medium else TierNone)"
  by (simp add: class_string_values tier_of_class_values)

lemma jsgt_mono: "jsle x y \<Longrightarrow> jsgt x (Fin t) \<Longrightarrow> jsgt y (Fin t)"
  by (cases x; cases y) auto

lemma ladder3_mono:
  assumes "jsle x y" "lo \<le> mid" "mid \<le> hi"
  shows "tier_le
     (class_string (if jsgt x (Fin hi) then Some 4 else if jsgt x (Fin mid) then Some 3
                    else if jsgt x (Fin lo) then Some 2 else None))
     (class_string (if jsgt y (Fin hi) then Some 4 else if jsgt y (Fin mid) then Some 3
                    else if jsgt y (Fin lo) then Some 2 else None))"
  using jsgt_mono [OF assms(1), of hi] jsgt_mono [OF assms(1), of mid] jsgt_mono [OF assms(1), of lo]
  by (simp add: tier_le_def class_string_values tier_of_class_values)

lemma ladder2_mono:
  assumes "jsle x y"
  shows "tier_le
     (class_string (if jsgt x (Fin hi) then Some 4 else if jsgt x (Fin mid) then Some 3 else None))
     (class_string (if jsgt y (Fin hi) then Some 4 else if jsgt y (Fin mid) then Some 3 else None))"
  using jsgt_mono [OF assms(1), of hi] jsgt_mono [OF assms(1), of mid]
  by (simp add: tier_le_def class_string_values tier_of_class_values)

lemma to_double_dyadic [simp]:
  "to_double (1 / 2) = Fin (1 / 2)" "to_double (1 / 4) = Fin (1 / 4)"
  "to_double (3 / 4) = Fin (3 / 4)" "to_double (3 / 2) = Fin (3 / 2)"
proof -
  show "to_double (1 / 2) = Fin (1 / 2)" by (rule to_double_exact [of _ 1 "- 1"]) simp_all
  show "to_double (1 / 4) = Fin (1 / 4)" by (rule to_double_exact [of _ 1 "- 2"]) simp_all
  show "to_double (3 / 4) = Fin (3 / 4)" by (rule to_double_exact [of _ 3 "- 2"]) simp_all
  show "to_double (3 / 2) = Fin (3 / 2)" by (rule to_double_exact [of _ 3 "- 1"]) simp_all
qed

lemma jsmul_of_int:
  assumes "\<bar>p * q\<bar> < 2 ^ 53"
  shows "jsmul (Fin (of_int p)) (Fin (of_int q)) = Fin (of_int (p * q))"
  using to_double_of_int [OF assms] by simp

text \<open>
  Claim C5. Each classifier compares its metric against descending thresholds with a strict
  \<open>>\<close>, the first match winning: duration percent, cost percent and the heap-fetch
  ratio are low above 10, medium above 40 and high above 90; the estimation factor is low
  above 10, medium above 100 and high above 1000; the rows-removed composite is the product
  of the rows-removed percent and the duration percent, medium above 500 and high above
  2000, and has no low tier. Each ladder is stated on its own, for every value of its
  metric: finite, infinite or \<open>NaN\<close>.
\<close>

theorem severity_thresholds:
  "(executionTimePercent s = Fin d \<longrightarrow> tier_of_class (durationClass s) =
      Some (if 90 < d then High else if 40 < d then Medium else if 10 < d then Low else TierNone))
   \<and> (executionTimePercent s = PInf \<longrightarrow> tier_of_class (durationClass s) = Some High)
   \<and> (executionTimePercent s = NInf \<longrightarrow> tier_of_class (durationClass s) = Some TierNone)
   \<and> (costPercent s = Fin c \<longrightarrow> tier_of_class (costClass s) =
      Some (if 90 < c then High else if 40 < c then Medium else if 10 < c then Low else TierNone))
   \<and> (costPercent s = PInf \<longrightarrow> tier_of_class (costClass s) = Some High)
   \<and> (costPercent s = NInf \<longrightarrow> tier_of_class (costClass s) = Some TierNone)
   \<and> (heapFetchesRatio n = Fin h \<longrightarrow> tier_of_class (heapFetchesClass n) =
      Some (if 90 < h then High else if 40 < h then Medium else if 10 < h then Low else TierNone))
   \<and> (heapFetchesRatio n = PInf \<longrightarrow> tier_of_class (heapFetchesClass n) = Some High)
   \<and> (heapFetchesRatio n = NInf \<longrightarrow> tier_of_class (heapFetchesClass n) = Some TierNone)
   \<and> (node_get n PLANNER_ESTIMATE_FACTOR = Number (Fin e) \<longrightarrow> tier_of_class (estimationClass n) =
      Some (if 1000 < e then High else if 100 < e then Medium else if 10 < e then Low else TierNone))
   \<and> (node_get n PLANNER_ESTIMATE_FACTOR = Number PInf \<longrightarrow>
        tier_of_class (estimationClass n) = Some High)
   \<and> (node_get n PLANNER_ESTIMATE_FACTOR = Number NInf \<longrightarrow>
        tier_of_class (estimationClass n) = Some TierNone)
   \<and> rowsRemovedComposite s = jsmul (rowsRemovedPercent s) (executionTimePercent s)
   \<and> (rowsRemovedPercent s = Fin (of_int p) \<and> executionTimePercent s = Fin (of_int q)
        \<and> \<bar>p * q\<bar> < 2 ^ 53 \<longrightarrow>
      rowsRemovedComposite s = Fin (of_int (p * q)))
   \<and> (rowsRemovedComposite s = Fin x \<longrightarrow> tier_of_class (rowsRemovedClass s) =
      Some (if 2000 < x then High else if 500 < x then Medium else TierNone))
   \<and> (rowsRemovedComposite s = PInf \<longrightarrow> tier_of_class (rowsRemovedClass s) = Some High)
   \<and> (rowsRemovedComposite s = NInf \<longrightarrow> tier_of_class (rowsRemovedClass s) = Some TierNone)
   \<and> (executionTimePercent s = NaN \<longrightarrow> tier_of_class (durationClass s) = Some TierNone)
   \<and> (costPercent s = NaN \<longrightarrow> tier_of_class (costClass s) = Some TierNone)
   \<and> (heapFetchesRatio n = NaN \<longrightarrow> tier_of_class (heapFetchesClass n) = Some TierNone)
   \<and> (toNumber (node_get n PLANNER_ESTIMATE_FACTOR) = NaN \<longrightarrow>
        tier_of_class (estimationClass n) = Some TierNone)
   \<and> (rowsRemovedComposite s = NaN \<longrightarrow> tier_of_class (rowsRemovedClass s) = Some TierNone)"
proof -
  have nan: "executionTimePercent s = NaN \<Longrightarrow> tier_of_class (durationClass s) = Some TierNone"
    "costPercent s = NaN \<Longrightarrow> tier_of_class (costClass s) = Some TierNone"
    "heapFetchesRatio n = NaN \<Longrightarrow> tier_of_class (heapFetchesClass n) = Some TierNone"
    "toNumber (node_get n PLANNER_ESTIMATE_FACTOR) = NaN \<Longrightarrow>
       tier_of_class (estimationClass n) = Some TierNone"
    "rowsRemovedComposite s = NaN \<Longrightarrow> tier_of_class (rowsRemovedClass s) = Some TierNone"
    by (simp_all add: durationClass_def costClass_def heapFetchesClass_def estimationClass_def
        rowsRemovedClass_def class_string_values tier_of_class_values)
  have dur: "executionTimePercent s = Fin d \<Longrightarrow> tier_of_class (durationClass s) =
      Some (if 90 < d then High else if 40 < d then Medium else if 10 < d then Low else TierNone)"
    "executionTimePercent s = PInf \<Longrightarrow> tier_of_class (durationClass s) = Some High"
    "executionTimePercent s = NInf \<Longrightarrow> tier_of_class (durationClass s) = Some TierNone"
    by (simp_all add: durationClass_def class_string_values tier_of_class_values)
  have cst: "costPercent s = Fin c \<Longrightarrow> tier_of_class (costClass s) =
      Some (if 90 < c then High else if 40 < c then Medium else if 10 < c then Low else TierNone)"
    "costPercent s = PInf \<Longrightarrow> tier_of_class (costClass s) = Some High"
    "costPercent s = NInf \<Longrightarrow> tier_of_class (costClass s) = Some TierNone"
    by (simp_all add: costClass_def class_string_values tier_of_class_values)
  have heap: "heapFetchesRatio n = Fin h \<Longrightarrow> tier_of_class (heapFetchesClass n) =
      Some (if 90 < h then High else if 40 < h then Medium else if 10 < h then Low else TierNone)"
    "heapFetchesRatio n = PInf \<Longrightarrow> tier_of_class (heapFetchesClass n) = Some High"
    "heapFetchesRatio n = NInf \<Longrightarrow> tier_of_class (heapFetchesClass n) = Some TierNone"
    by (simp_all add: heapFetchesClass_def class_string_values tier_of_class_values)
  have est: "node_get n PLANNER_ESTIMATE_FACTOR = Number (Fin e) \<Longrightarrow>
      tier_of_class (estimationClass n) =
      Some (if 1000 < e then High else if 100 < e then Medium else if 10 < e then Low else TierNone)"
    "node_get n PLANNER_ESTIMATE_FACTOR = Number PInf \<Longrightarrow>
      tier_of_class (estimationClass n) = Some High"
    "node_get n PLANNER_ESTIMATE_FACTOR = Number NInf \<Longrightarrow>
      tier_of_class (estimationClass n) = Some TierNone"
    by (simp_all add: estimationClass_def class_string_values tier_of_class_values)
  have prod: "rowsRemovedComposite s = Fin (of_int (p * q))"
    if "rowsRemovedPercent s = Fin (of_int p)" "executionTimePercent s = Fin (of_int q)"
      "\<bar>p * q\<bar> < 2 ^ 53"
    using that(1,2) jsmul_of_int [OF that(3)] by (simp add: rowsRemovedComposite_def)
  have rr: "rowsRemovedComposite s = Fin x \<Longrightarrow> tier_of_class (rowsRemovedClass s) =
      Some (if 2000 < x then High else if 500 < x then Medium else TierNone)"
    "rowsRemovedComposite s = PInf \<Longrightarrow> tier_of_class (rowsRemovedClass s) = Some High"
    "rowsRemovedComposite s = NInf \<Longrightarrow> tier_of_class (rowsRemovedClass s) = Some TierNone"
    by (simp_all add: rowsRemovedClass_def class_string_values tier_of_class_values)
  have def: "rowsRemovedComposite s = jsmul (rowsRemovedPercent s) (executionTimePercent s)"
    by (simp add: rowsRemovedComposite_def)
  show ?thesis
    using dur cst heap est prod rr def nan by blast
qed

theorem severity_thresholds_witness:
  "executionTimePercent (initial\<lparr>executionTimePercent := Fin 50, costPercent := Fin 95,
       rowsRemovedPercent := Fin 60\<rparr>) = Fin 50
   \<and> heapFetchesRatio \<lparr>props = [(PLANNER_ESTIMATE_FACTOR, Number (Fin 500)),
         (HEAP_FETCHES, Number (Fin 25)), (ACTUAL_ROWS, Number (Fin 100))], workers = None\<rparr> = Fin 25
   \<and> rowsRemovedComposite (initial\<lparr>executionTimePercent := Fin 50, costPercent := Fin 95,
       rowsRemovedPercent := Fin 60\<rparr>) = Fin 3000
   \<and> tier_of_class (durationClass (initial\<lparr>executionTimePercent := Fin 50, costPercent := Fin 95,
       rowsRemovedPercent := Fin 60\<rparr>)) = Some Medium
   \<and> tier_of_class (costClass (initial\<lparr>executionTimePercent := Fin 50, costPercent := Fin 95,
       rowsRemovedPercent := Fin 60\<rparr>)) = Some High
   \<and> tier_of_class (heapFetchesClass \<lparr>props = [(PLANNER_ESTIMATE_FACTOR, Number (Fin 500)),
         (HEAP_FETCHES, Number (Fin 25)), (ACTUAL_ROWS, Number (Fin 100))], workers = None\<rparr>) = Some Low
   \<and> tier_of_class (estimationClass \<lparr>props = [(PLANNER_ESTIMATE_FACTOR, Number (Fin 500)),
         (HEAP_FETCHES, Number (Fin 25)), (ACTUAL_ROWS, Number (Fin 100))], workers = None\<rparr>) = Some Medium
   \<and> tier_of_class (rowsRemovedClass (initial\<lparr>executionTimePercent := Fin 50, costPercent := Fin 95,
       rowsRemovedPercent := Fin 60\<rparr>)) = Some High
   \<and> tier_of_class (durationClass (initial\<lparr>executionTimePercent := PInf\<rparr>)) = Some High
   \<and> tier_of_class (costClass (initial\<lparr>costPercent := NInf\<rparr>)) = Some TierNone"
proof -
  let ?s = "initial\<lparr>executionTimePercent := Fin 50, costPercent := Fin 95,
       rowsRemovedPercent := Fin 60\<rparr>"
  let ?n = "\<lparr>props = [(PLANNER_ESTIMATE_FACTOR, Number (Fin 500)),
         (HEAP_FETCHES, Number (Fin 25)), (ACTUAL_ROWS, Number (Fin 100))], workers = None\<rparr>"
  have h1: "executionTimePercent ?s = Fin 50" and h2: "costPercent ?s = Fin 95"
    and h3: "rowsRemovedPercent ?s = Fin (of_int 60)"
    and h3': "executionTimePercent ?s = Fin (of_int 50)"
    by (simp_all add: initial_def)
  have h4: "node_get ?n PLANNER_ESTIMATE_FACTOR = Number (Fin 500)"
    by (simp add: node_get_def)
  have h5: "heapFetchesRatio ?n = Fin 25"
    by (simp add: heapFetchesRatio_def node_get_def or0_def)
  have h6: "\<bar>60 * 50 :: int\<bar> < 2 ^ 53" by simp
  have t1: "tier_of_class (durationClass ?s) = Some Medium"
      "tier_of_class (costClass ?s) = Some High"
      "rowsRemovedComposite ?s = Fin 3000"
    using severity_thresholds [of ?s 50 95 ?n 25 500 60 50 3000] h1 h2 h3 h3' h6 by simp_all
  have t2: "tier_of_class (heapFetchesClass ?n) = Some Low"
      "tier_of_class (estimationClass ?n) = Some Medium"
    using severity_thresholds [of ?s 50 95 ?n 25 500 60 50 3000] h4 h5 by simp_all
  have t3: "tier_of_class (rowsRemovedClass ?s) = Some High"
    using severity_thresholds [of ?s 50 95 ?n 25 500 60 50 3000] t1(3) by simp
  have t4: "tier_of_class (durationClass (initial\<lparr>executionTimePercent := PInf\<rparr>)) = Some High"
    using severity_thresholds [of "initial\<lparr>executionTimePercent := PInf\<rparr>"] by simp
  have t5: "tier_of_class (costClass (initial\<lparr>costPercent := NInf\<rparr>)) = Some TierNone"
    using severity_thresholds [of "initial\<lparr>costPercent := NInf\<rparr>"] by simp
  show ?thesis
    using h1 h5 t1 t2 t3 t4 t5 by simp
qed

text \<open>
  Claim C8. Every classifier is monotonic in its metric: for defined metric values
  \<open>x \<le> y\<close> the tier of \<open>x\<close> is at most the tier of \<open>y\<close>, in the order none, low,
  medium, high. The estimation factors 5, 50, 500 and 5000 are classified none, low, medium
  and high.
\<close>

theorem classifiers_monotone:
  "(jsle (executionTimePercent s) (executionTimePercent s') \<longrightarrow>
      tier_le (durationClass s) (durationClass s'))
   \<and> (jsle (costPercent s) (costPercent s') \<longrightarrow> tier_le (costClass s) (costClass s'))
   \<and> (jsle (rowsRemovedComposite s) (rowsRemovedComposite s') \<longrightarrow>
      tier_le (rowsRemovedClass s) (rowsRemovedClass s'))
   \<and> (jsle (toNumber (node_get n PLANNER_ESTIMATE_FACTOR))
            (toNumber (node_get n' PLANNER_ESTIMATE_FACTOR)) \<longrightarrow>
      tier_le (estimationClass n) (estimationClass n'))
   \<and> (jsle (heapFetchesRatio n) (heapFetchesRatio n') \<longrightarrow>
      tier_le (heapFetchesClass n) (heapFetchesClass n'))
   \<and> tier_of_class (estimationClass \<lparr>props = [(PLANNER_ESTIMATE_FACTOR, Number (Fin 5))],
        workers = None\<rparr>) = Some TierNone
   \<and> tier_of_class (estimationClass \<lparr>props = [(PLANNER_ESTIMATE_FACTOR, Number (Fin 50))],
        workers = None\<rparr>) = Some Low
   \<and> tier_of_class (estimationClass \<lparr>props = [(PLANNER_ESTIMATE_FACTOR, Number (Fin 500))],
        workers = None\<rparr>) = Some Medium
   \<and> tier_of_class (estimationClass \<lparr>props = [(PLANNER_ESTIMATE_FACTOR, Number (Fin 5000))],
        workers = None\<rparr>) = Some High"
proof -
  have ex: "tier_of_class (estimationClass \<lparr>props = [(PLANNER_ESTIMATE_FACTOR, Number (Fin x))],
        workers = None\<rparr>) =
      Some (if 1000 < x then High else if 100 < x then Medium else if 10 < x then Low else TierNone)"
    for x
    unfolding estimationClass_def Let_def ladder3_tier by (simp add: node_get_def)
  have m1: "tier_le (durationClass s) (durationClass s')"
    if "jsle (executionTimePercent s) (executionTimePercent s')"
    unfolding durationClass_def Let_def using that by (intro ladder3_mono) simp_all
  have m2: "tier_le (costClass s) (costClass s')" if "jsle (costPercent s) (costPercent s')"
    unfolding costClass_def Let_def using that by (intro ladder3_mono) simp_all
  have m3: "tier_le (rowsRemovedClass s) (rowsRemovedClass s')"
    if "jsle (rowsRemovedComposite s) (rowsRemovedComposite s')"
    unfolding rowsRemovedClass_def Let_def using that by (intro ladder2_mono)
  have m4: "tier_le (estimationClass n) (estimationClass n')"
    if "jsle (toNumber (node_get n PLANNER_ESTIMATE_FACTOR))
             (toNumber (node_get n' PLANNER_ESTIMATE_FACTOR))"
    unfolding estimationClass_def Let_def using that by (intro ladder3_mono) simp_all
  have m5: "tier_le (heapFetchesClass n) (heapFetchesClass n')"
    if "jsle (heapFetchesRatio n) (heapFetchesRatio n')"
    unfolding heapFetchesClass_def Let_def using that by (intro ladder3_mono) simp_all
  show ?thesis
    using m1 m2 m3 m4 m5 by (simp add: ex)
qed

theorem classifiers_monotone_witness:
  "jsle (Fin 20) (Fin 95)
   \<and> jsle (rowsRemovedComposite (initial\<lparr>executionTimePercent := Fin 10, rowsRemovedPercent := Fin 60\<rparr>))
            (rowsRemovedComposite (initial\<lparr>executionTimePercent := Fin 50, rowsRemovedPercent := Fin 60\<rparr>))
   \<and> jsle (heapFetchesRatio \<lparr>props = [(HEAP_FETCHES, Number (Fin 20)), (ACTUAL_ROWS, Number (Fin 100))],
              workers = None\<rparr>)
            (heapFetchesRatio \<lparr>props = [(HEAP_FETCHES, Number (Fin 95)), (ACTUAL_ROWS, Number (Fin 100))],
              workers = None\<rparr>)
   \<and> tier_le (durationClass (initial\<lparr>executionTimePercent := Fin 20\<rparr>))
              (durationClass (initial\<lparr>executionTimePercent := Fin 95\<rparr>))
   \<and> tier_le (costClass (initial\<lparr>costPercent := Fin 20\<rparr>))
              (costClass (initial\<lparr>costPercent := Fin 95\<rparr>))
   \<and> tier_le (rowsRemovedClass (initial\<lparr>executionTimePercent := Fin 10, rowsRemovedPercent := Fin 60\<rparr>))
              (rowsRemovedClass (initial\<lparr>executionTimePercent := Fin 50, rowsRemovedPercent := Fin 60\<rparr>))
   \<and> tier_le (estimationClass \<lparr>props = [(PLANNER_ESTIMATE_FACTOR, Number (Fin 20))], workers = None\<rparr>)
              (estimationClass \<lparr>props = [(PLANNER_ESTIMATE_FACTOR, Number (Fin 95))], workers = None\<rparr>)
   \<and> tier_le (heapFetchesClass \<lparr>props = [(HEAP_FETCHES, Number (Fin 20)), (ACTUAL_ROWS, Number (Fin 100))],
                workers = None\<rparr>)
              (heapFetchesClass \<lparr>props = [(HEAP_FETCHES, Number (Fin 95)), (ACTUAL_ROWS, Number (Fin 100))],
                workers = None\<rparr>)"
proof -
  let ?d1 = "initial\<lparr>executionTimePercent := Fin 20\<rparr>"
  let ?d2 = "initial\<lparr>executionTimePercent := Fin 95\<rparr>"
  let ?c1 = "initial\<lparr>costPercent := Fin 20\<rparr>"
  let ?c2 = "initial\<lparr>costPercent := Fin 95\<rparr>"
  let ?r1 = "initial\<lparr>executionTimePercent := Fin 10, rowsRemovedPercent := Fin 60\<rparr>"
  let ?r2 = "initial\<lparr>executionTimePercent := Fin 50, rowsRemovedPercent := Fin 60\<rparr>"
  let ?e1 = "\<lparr>props = [(PLANNER_ESTIMATE_FACTOR, Number (Fin 20))], workers = None\<rparr>"
  let ?e2 = "\<lparr>props = [(PLANNER_ESTIMATE_FACTOR, Number (Fin 95))], workers = None\<rparr>"
  let ?h1 = "\<lparr>props = [(HEAP_FETCHES, Number (Fin 20)), (ACTUAL_ROWS, Number (Fin 100))],
               workers = None\<rparr>"
  let ?h2 = "\<lparr>props = [(HEAP_FETCHES, Number (Fin 95)), (ACTUAL_ROWS, Number (Fin 100))],
               workers = None\<rparr>"
  have le: "jsle (Fin 20) (Fin 95)" by simp
  have r: "jsle (rowsRemovedComposite ?r1) (rowsRemovedComposite ?r2)"
    by (simp add: rowsRemovedComposite_def)
  have e: "jsle (toNumber (node_get ?e1 PLANNER_ESTIMATE_FACTOR))
                (toNumber (node_get ?e2 PLANNER_ESTIMATE_FACTOR))"
    by (simp add: node_get_def)
  have h: "jsle (heapFetchesRatio ?h1) (heapFetchesRatio ?h2)"
  proof -
    have "(0::real) \<le> 1 / 5" "(1::real) / 5 \<le> 19 / 20" "(19::real) / 20 \<le> 1" by simp_all
    from to_double_between [of 0 "1 / 5" 1] to_double_between [of 0 "19 / 20" 1]
    obtain x y where x: "to_double (1 / 5) = Fin x" "0 \<le> x"
      and y: "to_double (19 / 20) = Fin y" "0 \<le> y"
      by (auto simp: is_double_def)
    from to_double_mono [of "1 / 5" "19 / 20"] x y have "x \<le> y" by simp
    then have "x * 100 \<le> y * 100" by simp
    from to_double_mono [OF _ this] x(2) have "jsle (to_double (x * 100)) (to_double (y * 100))"
      by simp
    then show ?thesis
      using x(1) y(1) by (simp add: heapFetchesRatio_def node_get_def or0_def)
  qed
  show ?thesis
    using classifiers_monotone [of ?d1 ?d2 ?e1 ?e2] classifiers_monotone [of ?c1 ?c2 ?h1 ?h2]
      classifiers_monotone [of ?r1 ?r2] le r e h
    by simp
qed

section \<open>Undefined metrics\<close>

lemma jsgt_NaN [simp]: "jsgt NaN y = False"
  by (cases y) simp_all

lemma jsmul_NaN_right [simp]: "jsmul x NaN = NaN"
  by (cases x) simp_all

lemma jsdiv_NaN_right [simp]: "jsdiv x NaN = NaN"
  by (cases x) simp_all

lemma jsadd_NaN_right [simp]: "jsadd x NaN = NaN"
  by (cases x) simp_all

lemma class_string_None [simp]: "class_string None = None"
  by (simp add: class_string_def)

lemma calculateBar_preserves:
  "executionTimePercent (calculateBar ht plan n s) = executionTimePercent s"
  "costPercent (calculateBar ht plan n s) = costPercent s"
  "rowsRemoved (calculateBar ht plan n s) = rowsRemoved s"
  "rowsRemovedPercent (calculateBar ht plan n s) = rowsRemovedPercent s"
  "rowsRemovedPercentString (calculateBar ht plan n s) = rowsRemovedPercentString s"
  by (cases ht; simp split: jsval.splits)+

lemma calculateRowsRemoved_preserves:
  "executionTimePercent (calculateRowsRemoved n s) = executionTimePercent s"
  "costPercent (calculateRowsRemoved n s) = costPercent s"
  "barWidth (calculateRowsRemoved n s) = barWidth s"
  "highlightValue (calculateRowsRemoved n s) = highlightValue s"
  by (simp_all add: calculateRowsRemoved_def Let_def split: option.splits)

lemma onBeforeMount_fields:
  assumes "onBeforeMount ht plan n = Inr s"
  shows "executionTimePercent s = executionTimePercent (calculateDuration plan n initial)"
    and "\<exists>s0. calculateCost plan n s0 = Inr (s0\<lparr>costPercent := costPercent s\<rparr>)"
    and "rowsRemovedPercent s = rowsRemovedPercent (calculateRowsRemoved n initial)"
    and "highlightValue s = highlightValue (calculateBar ht plan n initial)"
    and "barWidth s = barWidth (calculateBar ht plan n initial)"
  using assms
  by (auto simp: onBeforeMount_def calculateCost_def calculateDuration_def calculateRowsRemoved_def
      calculateBar_preserves Let_def split: option.splits sum.splits)


lemma undefined_duration_NaN:
  "node_get n EXCLUSIVE_DURATION = Undefined \<Longrightarrow>
   executionTimePercent (calculateDuration plan n s) = NaN"
  by (simp add: calculateDuration_def)

lemma undefined_cost_NaN:
  "node_get n EXCLUSIVE_COST = Undefined \<Longrightarrow> calculateCost plan n s = Inr s' \<Longrightarrow>
   costPercent s' = NaN"
  by (auto simp: calculateCost_def split: option.splits)

lemma undefined_rows_removed_NaN:
  "rowsRemovedProp n = None \<or> node_get n ACTUAL_ROWS = Undefined \<Longrightarrow>
   rowsRemovedPercent s = NaN \<Longrightarrow> rowsRemovedPercent (calculateRowsRemoved n s) = NaN"
  by (auto simp: calculateRowsRemoved_def Let_def split: option.splits)

lemma durationClass_NaN: "executionTimePercent s = NaN \<Longrightarrow> durationClass s = None"
  by (simp add: durationClass_def)

lemma costClass_NaN: "costPercent s = NaN \<Longrightarrow> costClass s = None"
  by (simp add: costClass_def)

lemma rowsRemovedClass_NaN:
  "rowsRemovedPercent s = NaN \<or> executionTimePercent s = NaN \<Longrightarrow> rowsRemovedClass s = None"
  by (auto simp: rowsRemovedClass_def rowsRemovedComposite_def)

lemma estimationClass_Undefined:
  "node_get n PLANNER_ESTIMATE_FACTOR = Undefined \<Longrightarrow> estimationClass n = None"
  by (simp add: estimationClass_def)

lemma heapFetchesClass_Undefined:
  "node_get n HEAP_FETCHES = Undefined \<or> node_get n ACTUAL_ROWS = Undefined \<Longrightarrow>
   heapFetchesClass n = None"
  by (auto simp: heapFetchesClass_def heapFetchesRatio_def)

lemma mounted_classes:
  assumes "onBeforeMount ht plan n = Inr m"
  shows "node_get n EXCLUSIVE_DURATION = Undefined \<Longrightarrow>
           durationClass m = None \<and> rowsRemovedClass m = None"
    and "node_get n EXCLUSIVE_COST = Undefined \<Longrightarrow> costClass m = None"
    and "rowsRemovedProp n = None \<or> node_get n ACTUAL_ROWS = Undefined \<Longrightarrow>
           rowsRemovedClass m = None"
proof -
  note f = onBeforeMount_fields [OF assms]
  show "durationClass m = None \<and> rowsRemovedClass m = None"
    if "node_get n EXCLUSIVE_DURATION = Undefined"
    using that f(1) by (simp add: durationClass_NaN rowsRemovedClass_NaN undefined_duration_NaN)
  show "costClass m = None" if "node_get n EXCLUSIVE_COST = Undefined"
  proof -
    from f(2) obtain s0 where "calculateCost plan n s0 = Inr (s0\<lparr>costPercent := costPercent m\<rparr>)"
      by blast
    from undefined_cost_NaN [OF that this] show ?thesis
      by (simp add: costClass_NaN)
  qed
  show "rowsRemovedClass m = None"
    if "rowsRemovedProp n = None \<or> node_get n ACTUAL_ROWS = Undefined"
    using undefined_rows_removed_NaN [OF that, of initial] f(3)
    by (simp add: rowsRemovedClass_NaN initial_def)
qed

text \<open>
  Claim C6. A classifier whose metric is undefined returns \<open>false\<close>, which is tier none
  and renders no badge: this holds when the stored percentage is \<open>NaN\<close>, when the node
  property a classifier reads is absent, and, for a mounted component, when the node lacks
  the raw field the percentage is computed from. The bar and its label are not rendered
  when the node lacks the raw value of the selected highlight dimension.
\<close>

theorem undefined_metric_tier_none:
  "(executionTimePercent s = NaN \<longrightarrow> durationClass s = None)
   \<and> (costPercent s = NaN \<longrightarrow> costClass s = None)
   \<and> (rowsRemovedPercent s = NaN \<or> executionTimePercent s = NaN \<longrightarrow> rowsRemovedClass s = None)
   \<and> (node_get n PLANNER_ESTIMATE_FACTOR = Undefined \<longrightarrow> estimationClass n = None)
   \<and> (node_get n HEAP_FETCHES = Undefined \<or> node_get n ACTUAL_ROWS = Undefined \<longrightarrow>
        heapFetchesClass n = None)
   \<and> (onBeforeMount ht plan n = Inr m \<longrightarrow>
        (node_get n EXCLUSIVE_DURATION = Undefined \<longrightarrow>
           durationClass m = None \<and> rowsRemovedClass m = None)
        \<and> (node_get n EXCLUSIVE_COST = Undefined \<longrightarrow> costClass m = None)
        \<and> (rowsRemovedProp n = None \<or> node_get n ACTUAL_ROWS = Undefined \<longrightarrow>
             rowsRemovedClass m = None))
   \<and> tier_of_class None = Some TierNone
   \<and> \<not> badge_rendered None
   \<and> (node_get n EXCLUSIVE_DURATION = Undefined \<longrightarrow>
        \<not> bar_rendered DURATION (calculateBar DURATION plan n s))
   \<and> (node_get n ACTUAL_ROWS = Undefined \<longrightarrow> \<not> bar_rendered ROWS (calculateBar ROWS plan n s))
   \<and> (node_get n EXCLUSIVE_COST = Undefined \<longrightarrow> \<not> bar_rendered COST (calculateBar COST plan n s))"
proof -
  have bars: "node_get n EXCLUSIVE_DURATION = Undefined \<longrightarrow>
        \<not> bar_rendered DURATION (calculateBar DURATION plan n s)"
    "node_get n ACTUAL_ROWS = Undefined \<longrightarrow> \<not> bar_rendered ROWS (calculateBar ROWS plan n s)"
    "node_get n EXCLUSIVE_COST = Undefined \<longrightarrow> \<not> bar_rendered COST (calculateBar COST plan n s)"
    by (simp_all add: bar_rendered_def)
  have misc: "tier_of_class None = Some TierNone" "\<not> badge_rendered None"
    by (simp_all add: tier_of_class_def badge_rendered_def)
  show ?thesis
    using durationClass_NaN [of s] costClass_NaN [of s] rowsRemovedClass_NaN [of s]
      estimationClass_Undefined [of n] heapFetchesClass_Undefined [of n]
      mounted_classes [of ht plan n m] bars misc
    by blast
qed

theorem undefined_metric_tier_none_witness:
  "onBeforeMount DURATION
     \<lparr>planStats = \<lparr>executionTime = Undefined, maxDuration = Undefined, maxRows = Undefined,
        maxCost = Undefined\<rparr>, content = Some \<lparr>Plan = None, maxTotalCost = Undefined\<rparr>\<rparr>
     \<lparr>props = [], workers = None\<rparr> = Inr initial
   \<and> executionTimePercent initial = NaN \<and> costPercent initial = NaN
   \<and> rowsRemovedPercent initial = NaN
   \<and> durationClass initial = None \<and> costClass initial = None \<and> rowsRemovedClass initial = None
   \<and> estimationClass \<lparr>props = [], workers = None\<rparr> = None
   \<and> heapFetchesClass \<lparr>props = [], workers = None\<rparr> = None
   \<and> \<not> bar_rendered DURATION (calculateBar DURATION
        \<lparr>planStats = \<lparr>executionTime = Undefined, maxDuration = Undefined, maxRows = Undefined,
        maxCost = Undefined\<rparr>, content = Some \<lparr>Plan = None, maxTotalCost = Undefined\<rparr>\<rparr>
        \<lparr>props = [], workers = None\<rparr> initial)
   \<and> \<not> bar_rendered ROWS (calculateBar ROWS
        \<lparr>planStats = \<lparr>executionTime = Undefined, maxDuration = Undefined, maxRows = Undefined,
        maxCost = Undefined\<rparr>, content = Some \<lparr>Plan = None, maxTotalCost = Undefined\<rparr>\<rparr>
        \<lparr>props = [], workers = None\<rparr> initial)
   \<and> \<not> bar_rendered COST (calculateBar COST
        \<lparr>planStats = \<lparr>executionTime = Undefined, maxDuration = Undefined, maxRows = Undefined,
        maxCost = Undefined\<rparr>, content = Some \<lparr>Plan = None, maxTotalCost = Undefined\<rparr>\<rparr>
        \<lparr>props = [], workers = None\<rparr> initial)"
proof -
  let ?plan = "\<lparr>planStats = \<lparr>executionTime = Undefined, maxDuration = Undefined, maxRows = Undefined,
        maxCost = Undefined\<rparr>, content = Some \<lparr>Plan = None, maxTotalCost = Undefined\<rparr>\<rparr>"
  let ?n = "\<lparr>props = [], workers = None\<rparr>"
  have get: "node_get ?n k = Undefined" for k
    by (simp add: node_get_def)
  have rprop: "rowsRemovedProp ?n = None"
    by (simp add: rowsRemovedProp_def Object_keys_def)
  have mount: "onBeforeMount DURATION ?plan ?n = Inr initial"
    by (simp add: onBeforeMount_def calculateCost_def calculateDuration_def
        calculateRowsRemoved_def rprop get) (simp add: initial_def)
  have init: "executionTimePercent initial = NaN" "costPercent initial = NaN"
    "rowsRemovedPercent initial = NaN"
    by (simp_all add: initial_def)
  show ?thesis
    using undefined_metric_tier_none [of initial ?n DURATION ?plan initial] mount init get rprop
    by simp
qed

section \<open>Never-executed nodes\<close>

lemma truthy_iff: "truthy v \<longleftrightarrow> v \<notin> {Undefined, Number (Fin 0), Number NaN}"
proof (cases v)
  case Undefined
  then show ?thesis by simp
next
  case (Number x)
  then show ?thesis by (cases x) simp_all
qed

text \<open>
  Claim C7. \<open>neverExecuted\<close> is true exactly when the plan-level execution time is truthy
  (a number other than 0 and \<open>NaN\<close>) and the node's actual-loops value is falsy, which for
  a loop count means zero or absent; without plan-level execution time it is false for
  every node.
\<close>

theorem never_executed_iff:
  "(isNeverExecuted plan n \<longleftrightarrow>
      executionTime (planStats plan) \<notin> {Undefined, Number (Fin 0), Number NaN}
      \<and> node_get n ACTUAL_LOOPS \<in> {Undefined, Number (Fin 0), Number NaN})
   \<and> (node_get n ACTUAL_LOOPS \<noteq> Number NaN \<longrightarrow>
        (isNeverExecuted plan n \<longleftrightarrow>
           truthy (executionTime (planStats plan))
           \<and> (node_get n ACTUAL_LOOPS = Undefined \<or> node_get n ACTUAL_LOOPS = Number (Fin 0))))
   \<and> (executionTime (planStats plan) = Undefined \<longrightarrow> \<not> isNeverExecuted plan n)"
  unfolding isNeverExecuted_def truthy_iff by auto

theorem never_executed_iff_witness:
  "node_get \<lparr>props = [(ACTUAL_LOOPS, Number (Fin 0))], workers = None\<rparr> ACTUAL_LOOPS \<noteq> Number NaN
   \<and> isNeverExecuted
        \<lparr>planStats = \<lparr>executionTime = Number (Fin 12), maxDuration = Undefined,
           maxRows = Undefined, maxCost = Undefined\<rparr>, content = None\<rparr>
        \<lparr>props = [(ACTUAL_LOOPS, Number (Fin 0))], workers = None\<rparr>
   \<and> executionTime (planStats \<lparr>planStats = \<lparr>executionTime = Undefined, maxDuration = Undefined,
           maxRows = Undefined, maxCost = Undefined\<rparr>, content = None\<rparr>) = Undefined
   \<and> \<not> isNeverExecuted
        \<lparr>planStats = \<lparr>executionTime = Undefined, maxDuration = Undefined,
           maxRows = Undefined, maxCost = Undefined\<rparr>, content = None\<rparr>
        \<lparr>props = [(ACTUAL_LOOPS, Number (Fin 0))], workers = None\<rparr>"
proof -
  let ?n = "\<lparr>props = [(ACTUAL_LOOPS, Number (Fin 0))], workers = None\<rparr>"
  let ?p = "\<lparr>planStats = \<lparr>executionTime = Number (Fin 12), maxDuration = Undefined,
           maxRows = Undefined, maxCost = Undefined\<rparr>, content = None\<rparr>"
  let ?q = "\<lparr>planStats = \<lparr>executionTime = Undefined, maxDuration = Undefined,
           maxRows = Undefined, maxCost = Undefined\<rparr>, content = None\<rparr>"
  have loops: "node_get ?n ACTUAL_LOOPS = Number (Fin 0)"
    by (simp add: node_get_def)
  show ?thesis
    using never_executed_iff [of ?p ?n] never_executed_iff [of ?q ?n] loops by simp
qed

section \<open>What \<open>calculateBar\<close> leaves unchanged\<close>

text \<open>
  Claim C10. When the node lacks the raw value of the selected highlight dimension,
  \<open>calculateBar\<close> sets the label to \<open>null\<close> and changes nothing else: the bar fraction
  keeps the value it had. With the dimension none it changes nothing at all. So the fraction
  computed for duration is still stored after the dimension changes to rows on a node
  without actual rows, or to none.
\<close>

theorem calculateBar_frame:
  "(node_get n EXCLUSIVE_DURATION = Undefined \<longrightarrow>
      calculateBar DURATION plan n s = s\<lparr>highlightValue := None\<rparr>
      \<and> barWidth (calculateBar DURATION plan n s) = barWidth s)
   \<and> (node_get n ACTUAL_ROWS = Undefined \<longrightarrow>
      calculateBar ROWS plan n s = s\<lparr>highlightValue := None\<rparr>
      \<and> barWidth (calculateBar ROWS plan n s) = barWidth s)
   \<and> (node_get n EXCLUSIVE_COST = Undefined \<longrightarrow>
      calculateBar COST plan n s = s\<lparr>highlightValue := None\<rparr>
      \<and> barWidth (calculateBar COST plan n s) = barWidth s)
   \<and> calculateBar NONE plan n s = s
   \<and> barWidth (calculateBar DURATION
        \<lparr>planStats = \<lparr>executionTime = Undefined, maxDuration = Number (Fin 100),
           maxRows = Number (Fin 10), maxCost = Undefined\<rparr>, content = None\<rparr>
        \<lparr>props = [(EXCLUSIVE_DURATION, Number (Fin 50))], workers = None\<rparr> initial) = Fin 50
   \<and> barWidth (calculateBar ROWS
        \<lparr>planStats = \<lparr>executionTime = Undefined, maxDuration = Number (Fin 100),
           maxRows = Number (Fin 10), maxCost = Undefined\<rparr>, content = None\<rparr>
        \<lparr>props = [(EXCLUSIVE_DURATION, Number (Fin 50))], workers = None\<rparr>
        (calculateBar DURATION
          \<lparr>planStats = \<lparr>executionTime = Undefined, maxDuration = Number (Fin 100),
             maxRows = Number (Fin 10), maxCost = Undefined\<rparr>, content = None\<rparr>
          \<lparr>props = [(EXCLUSIVE_DURATION, Number (Fin 50))], workers = None\<rparr> initial)) = Fin 50
   \<and> barWidth (calculateBar NONE
        \<lparr>planStats = \<lparr>executionTime = Undefined, maxDuration = Number (Fin 100),
           maxRows = Number (Fin 10), maxCost = Undefined\<rparr>, content = None\<rparr>
        \<lparr>props = [(EXCLUSIVE_DURATION, Number (Fin 50))], workers = None\<rparr>
        (calculateBar DURATION
          \<lparr>planStats = \<lparr>executionTime = Undefined, maxDuration = Number (Fin 100),
             maxRows = Number (Fin 10), maxCost = Undefined\<rparr>, content = None\<rparr>
          \<lparr>props = [(EXCLUSIVE_DURATION, Number (Fin 50))], workers = None\<rparr> initial)) = Fin 50"
proof -
  have frame: "calculateBar NONE plan n s = s"
    "node_get n EXCLUSIVE_DURATION = Undefined \<Longrightarrow>
       calculateBar DURATION plan n s = s\<lparr>highlightValue := None\<rparr>"
    "node_get n ACTUAL_ROWS = Undefined \<Longrightarrow> calculateBar ROWS plan n s = s\<lparr>highlightValue := None\<rparr>"
    "node_get n EXCLUSIVE_COST = Undefined \<Longrightarrow> calculateBar COST plan n s = s\<lparr>highlightValue := None\<rparr>"
    by simp_all
  let ?p = "\<lparr>planStats = \<lparr>executionTime = Undefined, maxDuration = Number (Fin 100),
           maxRows = Number (Fin 10), maxCost = Undefined\<rparr>, content = None\<rparr>"
  let ?n = "\<lparr>props = [(EXCLUSIVE_DURATION, Number (Fin 50))], workers = None\<rparr>"
  have ex: "barWidth (calculateBar DURATION ?p ?n initial) = Fin 50"
    "barWidth (calculateBar ROWS ?p ?n (calculateBar DURATION ?p ?n initial)) = Fin 50"
    "barWidth (calculateBar NONE ?p ?n (calculateBar DURATION ?p ?n initial)) = Fin 50"
    by (simp_all add: node_get_def bar_percent_def)
  show ?thesis
    using frame ex by simp
qed

theorem calculateBar_frame_witness:
  "node_get \<lparr>props = [(EXCLUSIVE_DURATION, Number (Fin 50))], workers = None\<rparr> ACTUAL_ROWS = Undefined
   \<and> node_get \<lparr>props = [], workers = None\<rparr> EXCLUSIVE_DURATION = Undefined
   \<and> node_get \<lparr>props = [], workers = None\<rparr> EXCLUSIVE_COST = Undefined
   \<and> calculateBar ROWS
        \<lparr>planStats = \<lparr>executionTime = Undefined, maxDuration = Number (Fin 100),
           maxRows = Number (Fin 10), maxCost = Undefined\<rparr>, content = None\<rparr>
        \<lparr>props = [(EXCLUSIVE_DURATION, Number (Fin 50))], workers = None\<rparr>
        (initial\<lparr>barWidth := Fin 50, highlightValue := Some (duration (Fin 50))\<rparr>)
      = initial\<lparr>barWidth := Fin 50\<rparr>
   \<and> calculateBar DURATION
        \<lparr>planStats = \<lparr>executionTime = Undefined, maxDuration = Number (Fin 100),
           maxRows = Number (Fin 10), maxCost = Undefined\<rparr>, content = None\<rparr>
        \<lparr>props = [], workers = None\<rparr>
        (initial\<lparr>barWidth := Fin 50, highlightValue := Some (rows (Fin 7))\<rparr>)
      = initial\<lparr>barWidth := Fin 50\<rparr>
   \<and> calculateBar COST
        \<lparr>planStats = \<lparr>executionTime = Undefined, maxDuration = Number (Fin 100),
           maxRows = Number (Fin 10), maxCost = Undefined\<rparr>, content = None\<rparr>
        \<lparr>props = [], workers = None\<rparr>
        (initial\<lparr>barWidth := Fin 50, highlightValue := Some (rows (Fin 7))\<rparr>)
      = initial\<lparr>barWidth := Fin 50\<rparr>"
proof -
  let ?p = "\<lparr>planStats = \<lparr>executionTime = Undefined, maxDuration = Number (Fin 100),
           maxRows = Number (Fin 10), maxCost = Undefined\<rparr>, content = None\<rparr>"
  let ?n = "\<lparr>props = [(EXCLUSIVE_DURATION, Number (Fin 50))], workers = None\<rparr>"
  let ?e = "\<lparr>props = [], workers = None\<rparr>"
  have h: "node_get ?n ACTUAL_ROWS = Undefined" "node_get ?e EXCLUSIVE_DURATION = Undefined"
    "node_get ?e EXCLUSIVE_COST = Undefined"
    by (simp_all add: node_get_def)
  have upd: "initial\<lparr>barWidth := Fin 50, highlightValue := Some l, highlightValue := None\<rparr>
      = initial\<lparr>barWidth := Fin 50\<rparr>" for l
    by (simp add: initial_def)
  show ?thesis
    using calculateBar_frame [of ?n ?p "initial\<lparr>barWidth := Fin 50, highlightValue := Some (duration (Fin 50))\<rparr>"]
      calculateBar_frame [of ?e ?p "initial\<lparr>barWidth := Fin 50, highlightValue := Some (rows (Fin 7))\<rparr>"]
      h upd
    by simp
qed

section \<open>Percentages in double arithmetic\<close>

lemma percent_nonneg:
  assumes "0 \<le> v" "0 < m"
  shows "(\<exists>y. jsmul (jsdiv (Fin v) (Fin m)) (Fin 100) = Fin y \<and> 0 \<le> y)
       \<or> jsmul (jsdiv (Fin v) (Fin m)) (Fin 100) = PInf"
proof -
  have q: "0 \<le> v / m" using assms by simp
  from to_double_nonneg [OF q] show ?thesis
  proof
    assume "\<exists>y. to_double (v / m) = Fin y \<and> 0 \<le> y"
    then obtain y where y: "to_double (v / m) = Fin y" "0 \<le> y" by blast
    then have "0 \<le> y * 100" by simp
    from to_double_nonneg [OF this] show ?thesis using assms(2) y(1) by simp
  next
    assume "to_double (v / m) = PInf"
    then show ?thesis using assms(2) by simp
  qed
qed

lemma percent_unit:
  assumes "0 \<le> v" "v \<le> m" "0 < m"
  shows "\<exists>y. jsmul (jsdiv (Fin v) (Fin m)) (Fin 100) = Fin y \<and> 0 \<le> y \<and> y \<le> 100"
proof -
  have "0 \<le> v / m" "v / m \<le> 1" using assms by simp_all
  from to_double_between [OF _ this] obtain q where q: "to_double (v / m) = Fin q" "0 \<le> q" "q \<le> 1"
    by (auto simp: is_double_def)
  then have "0 \<le> q * 100" "q * 100 \<le> 100" by simp_all
  from to_double_between [OF _ this] obtain y where "to_double (q * 100) = Fin y" "0 \<le> y" "y \<le> 100"
    by (auto simp: is_double_def)
  then show ?thesis using assms(3) q(1) by simp
qed

lemma percent_above:
  assumes "0 < m" "m < v"
  shows "jsle (Fin 100) (jsmul (jsdiv (Fin v) (Fin m)) (Fin 100))"
proof -
  have "1 \<le> v / m" using assms by simp
  from to_double_mono [OF _ this] have "jsle (Fin 1) (to_double (v / m))" by simp
  from jsle_Fin_cases [OF this] show ?thesis
  proof
    assume "\<exists>y. to_double (v / m) = Fin y \<and> 1 \<le> y"
    then obtain y where y: "to_double (v / m) = Fin y" "1 \<le> y" by blast
    then have "100 \<le> y * 100" by simp
    from to_double_mono [OF _ this] have "jsle (Fin 100) (to_double (y * 100))" by simp
    then show ?thesis using assms(1) y(1) by simp
  next
    assume "to_double (v / m) = PInf"
    then show ?thesis using assms(1) by simp
  qed
qed

lemma Math_round_nonneg:
  assumes "(\<exists>y. x = Fin y \<and> 0 \<le> y) \<or> x = PInf"
  shows "(\<exists>k. Math_round x = Fin (of_int k) \<and> 0 \<le> k) \<or> Math_round x = PInf"
  using assms
proof
  assume "\<exists>y. x = Fin y \<and> 0 \<le> y"
  then obtain y where y: "x = Fin y" "0 \<le> y" by blast
  then have "0 \<le> \<lfloor>y + 1 / 2\<rfloor>" by simp
  with y(1) show ?thesis by simp
next
  assume "x = PInf"
  then show ?thesis by simp
qed

lemma Math_round_unit:
  assumes "\<exists>y. x = Fin y \<and> 0 \<le> y \<and> y \<le> 100"
  shows "\<exists>k. Math_round x = Fin (of_int k) \<and> 0 \<le> k \<and> k \<le> 100"
proof -
  from assms obtain y where y: "x = Fin y" "0 \<le> y" "y \<le> 100" by blast
  have "0 \<le> \<lfloor>y + 1 / 2\<rfloor>" using y(2) by simp
  moreover have "\<lfloor>y + 1 / 2\<rfloor> \<le> 100" using y(3) by (simp add: floor_le_iff)
  ultimately show ?thesis using y(1) by simp
qed

lemma Math_round_above: "jsle (Fin 100) x \<Longrightarrow> jsle (Fin 100) (Math_round x)"
proof (cases x)
  case (Fin y)
  assume "jsle (Fin 100) x"
  with Fin have "100 \<le> y" by simp
  then have "100 \<le> \<lfloor>y + 1 / 2\<rfloor>" by (simp add: le_floor_iff)
  then have "(100::real) \<le> of_int \<lfloor>y + 1 / 2\<rfloor>" by linarith
  with Fin show ?thesis by simp
qed simp_all

lemma or0_id: "x \<noteq> NaN \<Longrightarrow> or0 x = x"
  by (cases x) (simp_all add: or0_def)

lemma percent_150_100: "Math_round (jsmul (jsdiv (Fin 150) (Fin 100)) (Fin 100)) = Fin 150"
  by simp

lemma percent_23_40: "Math_round (jsmul (jsdiv (Fin 23) (Fin 40)) (Fin 100)) = Fin 57"
proof -
  have a: "to_double (23 / 40) = Fin (5179139571476070 / 2 ^ 53)"
    by (subst to_double_eval [of "- 1"]) (simp_all add: rhe_def Let_def)
  have b: "to_double (5179139571476070 / 2 ^ 53 * 100) = Fin (8092405580431359 / 2 ^ 47)"
    by (subst to_double_eval [of 5]) (simp_all add: rhe_def Let_def)
  have "jsdiv (Fin 23) (Fin 40) = Fin (5179139571476070 / 2 ^ 53)" using a by simp
  moreover have "jsmul (Fin (5179139571476070 / 2 ^ 53)) (Fin 100) = Fin (8092405580431359 / 2 ^ 47)"
    using b by simp
  moreover have "Math_round (Fin (8092405580431359 / 2 ^ 47)) = Fin 57" by simp
  ultimately show ?thesis by simp
qed

lemma percent_29_200: "Math_round (jsmul (jsdiv (Fin 29) (Fin 200)) (Fin 100)) = Fin 14"
proof -
  have a: "to_double (29 / 200) = Fin (5224175567749775 / 2 ^ 55)"
    by (subst to_double_eval [of "- 3"]) (simp_all add: rhe_def Let_def)
  have b: "to_double (5224175567749775 / 2 ^ 55 * 100) = Fin (8162774324609023 / 2 ^ 49)"
    by (subst to_double_eval [of 3]) (simp_all add: rhe_def Let_def)
  have "jsdiv (Fin 29) (Fin 200) = Fin (5224175567749775 / 2 ^ 55)" using a by simp
  moreover have "jsmul (Fin (5224175567749775 / 2 ^ 55)) (Fin 100) = Fin (8162774324609023 / 2 ^ 49)"
    using b by simp
  moreover have "Math_round (Fin (8162774324609023 / 2 ^ 49)) = Fin 14" by simp
  ultimately show ?thesis by simp
qed

section \<open>The bar fraction\<close>

text \<open>
  Claim C1, as stated, fails: the fraction is not clamped. A duration of 150 with a
  recorded maximum of 100 gives the fraction 150, and a duration of 0 with a maximum of 0
  gives \<open>NaN\<close>.
\<close>

theorem bar_fraction_clamp_counterexample:
  "barWidth (calculateBar DURATION
      \<lparr>planStats = \<lparr>executionTime = Undefined, maxDuration = Number (Fin 100),
         maxRows = Undefined, maxCost = Undefined\<rparr>, content = None\<rparr>
      \<lparr>props = [(EXCLUSIVE_DURATION, Number (Fin 150))], workers = None\<rparr> initial) = Fin 150
   \<and> barWidth (calculateBar DURATION
      \<lparr>planStats = \<lparr>executionTime = Undefined, maxDuration = Number (Fin 0),
         maxRows = Undefined, maxCost = Undefined\<rparr>, content = None\<rparr>
      \<lparr>props = [(EXCLUSIVE_DURATION, Number (Fin 0))], workers = None\<rparr> initial) = NaN"
  by (simp add: node_get_def bar_percent_def)

text \<open>
  Claim C1, amended. For a node whose raw value \<open>v\<close> of the selected dimension is present
  and not negative, and a recorded plan-wide maximum \<open>m > 0\<close> of that dimension, the stored
  fraction is \<open>Math.round((v / m) * 100)\<close> as double arithmetic computes it, without
  clamping: it is a non-negative integer, or infinity when the quotient overflows; it lies
  between 0 and 100 whenever \<open>v \<le> m\<close>, and it is at least 100 whenever \<open>v > m\<close>. For the
  rows dimension a value of 0 with a maximum of 0 gives the fraction 0.
\<close>

theorem bar_fraction_rounded:
  assumes "0 \<le> v" and "0 < m"
  shows "(node_get n EXCLUSIVE_DURATION = Number (Fin v)
            \<and> maxDuration (planStats plan) = Number (Fin m) \<longrightarrow>
          barWidth (calculateBar DURATION plan n s) =
            Math_round (jsmul (jsdiv (Fin v) (Fin m)) (Fin 100)))
       \<and> (node_get n ACTUAL_ROWS = Number (Fin v) \<and> maxRows (planStats plan) = Number (Fin m) \<longrightarrow>
          barWidth (calculateBar ROWS plan n s) =
            Math_round (jsmul (jsdiv (Fin v) (Fin m)) (Fin 100)))
       \<and> (node_get n EXCLUSIVE_COST = Number (Fin v) \<and> maxCost (planStats plan) = Number (Fin m) \<longrightarrow>
          barWidth (calculateBar COST plan n s) =
            Math_round (jsmul (jsdiv (Fin v) (Fin m)) (Fin 100)))
       \<and> ((\<exists>k. Math_round (jsmul (jsdiv (Fin v) (Fin m)) (Fin 100)) = Fin (of_int k) \<and> 0 \<le> k)
          \<or> Math_round (jsmul (jsdiv (Fin v) (Fin m)) (Fin 100)) = PInf)
       \<and> (v \<le> m \<longrightarrow>
          (\<exists>k. Math_round (jsmul (jsdiv (Fin v) (Fin m)) (Fin 100)) = Fin (of_int k)
             \<and> 0 \<le> k \<and> k \<le> 100))
       \<and> (m < v \<longrightarrow> jsle (Fin 100) (Math_round (jsmul (jsdiv (Fin v) (Fin m)) (Fin 100))))
       \<and> (node_get n ACTUAL_ROWS = Number (Fin 0) \<and> maxRows (planStats plan) = Number (Fin 0) \<longrightarrow>
          barWidth (calculateBar ROWS plan n s) = Fin 0)"
proof -
  let ?r = "Math_round (jsmul (jsdiv (Fin v) (Fin m)) (Fin 100))"
  have nn: "(\<exists>k. ?r = Fin (of_int k) \<and> 0 \<le> k) \<or> ?r = PInf"
    by (rule Math_round_nonneg [OF percent_nonneg [OF assms]])
  then have "?r \<noteq> NaN" by auto
  then have or: "or0 ?r = ?r" by (rule or0_id)
  have unit: "\<exists>k. ?r = Fin (of_int k) \<and> 0 \<le> k \<and> k \<le> 100" if "v \<le> m"
    by (rule Math_round_unit [OF percent_unit [OF assms(1) that assms(2)]])
  have above: "jsle (Fin 100) ?r" if "m < v"
    by (rule Math_round_above [OF percent_above [OF assms(2) that]])
  have zero: "barWidth (calculateBar ROWS plan n s) = Fin 0"
    if "node_get n ACTUAL_ROWS = Number (Fin 0)" "maxRows (planStats plan) = Number (Fin 0)"
    using that by (simp add: bar_percent_def or0_def)
  have d: "barWidth (calculateBar DURATION plan n s) = ?r"
    if "node_get n EXCLUSIVE_DURATION = Number (Fin v)" "maxDuration (planStats plan) = Number (Fin m)"
    using that by (simp add: bar_percent_def)
  have r: "barWidth (calculateBar ROWS plan n s) = ?r"
    if "node_get n ACTUAL_ROWS = Number (Fin v)" "maxRows (planStats plan) = Number (Fin m)"
    using that or by (simp add: bar_percent_def)
  have c: "barWidth (calculateBar COST plan n s) = ?r"
    if "node_get n EXCLUSIVE_COST = Number (Fin v)" "maxCost (planStats plan) = Number (Fin m)"
    using that by (simp add: bar_percent_def)
  show ?thesis
    using nn unit above zero d r c by blast
qed

theorem bar_fraction_rounded_witness:
  "(0::real) \<le> 150 \<and> (0::real) < 100
   \<and> barWidth (calculateBar DURATION
        \<lparr>planStats = \<lparr>executionTime = Undefined, maxDuration = Number (Fin 100),
           maxRows = Number (Fin 100), maxCost = Number (Fin 100)\<rparr>, content = None\<rparr>
        \<lparr>props = [(EXCLUSIVE_DURATION, Number (Fin 150)), (ACTUAL_ROWS, Number (Fin 150)),
                  (EXCLUSIVE_COST, Number (Fin 150))], workers = None\<rparr> initial) = Fin 150
   \<and> barWidth (calculateBar ROWS
        \<lparr>planStats = \<lparr>executionTime = Undefined, maxDuration = Number (Fin 100),
           maxRows = Number (Fin 100), maxCost = Number (Fin 100)\<rparr>, content = None\<rparr>
        \<lparr>props = [(EXCLUSIVE_DURATION, Number (Fin 150)), (ACTUAL_ROWS, Number (Fin 150)),
                  (EXCLUSIVE_COST, Number (Fin 150))], workers = None\<rparr> initial) = Fin 150
   \<and> barWidth (calculateBar COST
        \<lparr>planStats = \<lparr>executionTime = Undefined, maxDuration = Number (Fin 100),
           maxRows = Number (Fin 100), maxCost = Number (Fin 100)\<rparr>, content = None\<rparr>
        \<lparr>props = [(EXCLUSIVE_DURATION, Number (Fin 150)), (ACTUAL_ROWS, Number (Fin 150)),
                  (EXCLUSIVE_COST, Number (Fin 150))], workers = None\<rparr> initial) = Fin 150
   \<and> barWidth (calculateBar COST
        \<lparr>planStats = \<lparr>executionTime = Undefined, maxDuration = Undefined,
           maxRows = Undefined, maxCost = Number (Fin 40)\<rparr>, content = None\<rparr>
        \<lparr>props = [(EXCLUSIVE_COST, Number (Fin 23))], workers = None\<rparr> initial) = Fin 57
   \<and> barWidth (calculateBar ROWS
        \<lparr>planStats = \<lparr>executionTime = Undefined, maxDuration = Undefined,
           maxRows = Number (Fin 0), maxCost = Undefined\<rparr>, content = None\<rparr>
        \<lparr>props = [(ACTUAL_ROWS, Number (Fin 0))], workers = None\<rparr> initial) = Fin 0"
proof -
  let ?p = "\<lparr>planStats = \<lparr>executionTime = Undefined, maxDuration = Number (Fin 100),
           maxRows = Number (Fin 100), maxCost = Number (Fin 100)\<rparr>, content = None\<rparr>"
  let ?n = "\<lparr>props = [(EXCLUSIVE_DURATION, Number (Fin 150)), (ACTUAL_ROWS, Number (Fin 150)),
                  (EXCLUSIVE_COST, Number (Fin 150))], workers = None\<rparr>"
  let ?q = "\<lparr>planStats = \<lparr>executionTime = Undefined, maxDuration = Undefined,
           maxRows = Number (Fin 0), maxCost = Undefined\<rparr>, content = None\<rparr>"
  let ?z = "\<lparr>props = [(ACTUAL_ROWS, Number (Fin 0))], workers = None\<rparr>"
  let ?pc = "\<lparr>planStats = \<lparr>executionTime = Undefined, maxDuration = Undefined,
           maxRows = Undefined, maxCost = Number (Fin 40)\<rparr>, content = None\<rparr>"
  let ?nc = "\<lparr>props = [(EXCLUSIVE_COST, Number (Fin 23))], workers = None\<rparr>"
  have a: "(0::real) \<le> 150" and b: "(0::real) < 100" by simp_all
  have a': "(0::real) \<le> 23" and b': "(0::real) < 40" by simp_all
  have g: "node_get ?n EXCLUSIVE_DURATION = Number (Fin 150)"
    "node_get ?n ACTUAL_ROWS = Number (Fin 150)" "node_get ?n EXCLUSIVE_COST = Number (Fin 150)"
    "node_get ?z ACTUAL_ROWS = Number (Fin 0)" "node_get ?nc EXCLUSIVE_COST = Number (Fin 23)"
    by (simp_all add: node_get_def)
  have t1: "barWidth (calculateBar DURATION ?p ?n initial) = Fin 150"
      "barWidth (calculateBar ROWS ?p ?n initial) = Fin 150"
      "barWidth (calculateBar COST ?p ?n initial) = Fin 150"
    using bar_fraction_rounded [OF a b, of ?n ?p initial] g(1-3)
    by (simp_all only: percent_150_100 PlanStats.simps IPlan.simps simp_thms)
  have t2: "barWidth (calculateBar COST ?pc ?nc initial) = Fin 57"
    using bar_fraction_rounded [OF a' b', of ?nc ?pc initial] g(5)
    by (simp only: percent_23_40 PlanStats.simps IPlan.simps simp_thms)
  have t3: "barWidth (calculateBar ROWS ?q ?z initial) = Fin 0"
    using bar_fraction_rounded [OF a b, of ?z ?q initial] g(4)
    by (simp only: PlanStats.simps IPlan.simps simp_thms)
  show ?thesis
    using a b t1 t2 t3 by simp
qed

section \<open>Duration percent\<close>

text \<open>
  Claim C2, as stated, fails: the duration percent can be undefined although the node's
  exclusive duration is present. Without a plan-level execution time and with a root node
  whose total time is 0, a node with exclusive duration 0 gets \<open>NaN\<close>.
\<close>

theorem duration_percent_counterexample:
  "node_get \<lparr>props = [(ACTUAL_TOTAL_TIME, Number (Fin 0)), (EXCLUSIVE_DURATION, Number (Fin 0))],
      workers = None\<rparr> EXCLUSIVE_DURATION = Number (Fin 0)
   \<and> executionTimePercent (calculateDuration
        \<lparr>planStats = \<lparr>executionTime = Undefined, maxDuration = Number (Fin 0),
           maxRows = Undefined, maxCost = Undefined\<rparr>,
         content = Some \<lparr>Plan = Some \<lparr>props = [(ACTUAL_TOTAL_TIME, Number (Fin 0)),
           (EXCLUSIVE_DURATION, Number (Fin 0))], workers = None\<rparr>, maxTotalCost = Undefined\<rparr>\<rparr>
        \<lparr>props = [(ACTUAL_TOTAL_TIME, Number (Fin 0)), (EXCLUSIVE_DURATION, Number (Fin 0))],
           workers = None\<rparr> initial) = NaN"
  by (simp add: calculateDuration_def execution_time_def root_total_time_def node_get_def)

text \<open>
  Claim C2, amended. The duration percent is \<open>_.round((exclusiveDuration / executionTime) * 100)\<close>
  as double arithmetic computes it, where the execution time is the plan-level one when
  that is truthy and the root node's actual total time otherwise. It is undefined (\<open>NaN\<close>)
  whenever the node's exclusive duration is absent, whenever the execution time is absent,
  and when both are 0. When the exclusive duration is a number \<open>d \<ge> 0\<close> and the execution
  time a number \<open>t > 0\<close>, it is a non-negative integer, or infinity when the quotient
  overflows; it lies between 0 and 100 whenever \<open>d \<le> t\<close>.
\<close>

theorem duration_percent_rounded:
  "(truthy (executionTime (planStats plan)) \<longrightarrow>
      execution_time plan = executionTime (planStats plan))
   \<and> (\<not> truthy (executionTime (planStats plan)) \<and> content plan = Some c \<and> Plan c = Some rt \<longrightarrow>
      execution_time plan = node_get rt ACTUAL_TOTAL_TIME)
   \<and> executionTimePercent (calculateDuration plan n s) =
        Math_round (jsmul (jsdiv (toNumber (node_get n EXCLUSIVE_DURATION))
                                 (toNumber (execution_time plan))) (Fin 100))
   \<and> (node_get n EXCLUSIVE_DURATION = Undefined \<longrightarrow>
      executionTimePercent (calculateDuration plan n s) = NaN)
   \<and> (execution_time plan = Undefined \<longrightarrow>
      executionTimePercent (calculateDuration plan n s) = NaN)
   \<and> (node_get n EXCLUSIVE_DURATION = Number (Fin 0) \<and> execution_time plan = Number (Fin 0) \<longrightarrow>
      executionTimePercent (calculateDuration plan n s) = NaN)
   \<and> (node_get n EXCLUSIVE_DURATION = Number (Fin d) \<and> 0 \<le> d
        \<and> execution_time plan = Number (Fin t) \<and> 0 < t \<longrightarrow>
      (\<exists>k. executionTimePercent (calculateDuration plan n s) = Fin (of_int k) \<and> 0 \<le> k)
      \<or> executionTimePercent (calculateDuration plan n s) = PInf)
   \<and> (node_get n EXCLUSIVE_DURATION = Number (Fin d) \<and> 0 \<le> d
        \<and> execution_time plan = Number (Fin t) \<and> 0 < t \<and> d \<le> t \<longrightarrow>
      (\<exists>k. executionTimePercent (calculateDuration plan n s) = Fin (of_int k)
         \<and> 0 \<le> k \<and> k \<le> 100))"
proof -
  let ?r = "executionTimePercent (calculateDuration plan n s)"
  have pos: "(\<exists>k. ?r = Fin (of_int k) \<and> 0 \<le> k) \<or> ?r = PInf"
    if "node_get n EXCLUSIVE_DURATION = Number (Fin d)" "0 \<le> d"
      "execution_time plan = Number (Fin t)" "0 < t"
    using Math_round_nonneg [OF percent_nonneg [OF that(2,4)]] that(1,3)
    by (simp add: calculateDuration_def)
  have unit: "\<exists>k. ?r = Fin (of_int k) \<and> 0 \<le> k \<and> k \<le> 100"
    if "node_get n EXCLUSIVE_DURATION = Number (Fin d)" "0 \<le> d"
      "execution_time plan = Number (Fin t)" "0 < t" "d \<le> t"
    using Math_round_unit [OF percent_unit [OF that(2,5,4)]] that(1,3)
    by (simp add: calculateDuration_def)
  have rest: "(truthy (executionTime (planStats plan)) \<longrightarrow>
      execution_time plan = executionTime (planStats plan))
    \<and> (\<not> truthy (executionTime (planStats plan)) \<and> content plan = Some c \<and> Plan c = Some rt \<longrightarrow>
      execution_time plan = node_get rt ACTUAL_TOTAL_TIME)
    \<and> ?r = Math_round (jsmul (jsdiv (toNumber (node_get n EXCLUSIVE_DURATION))
                                 (toNumber (execution_time plan))) (Fin 100))
    \<and> (node_get n EXCLUSIVE_DURATION = Undefined \<longrightarrow> ?r = NaN)
    \<and> (execution_time plan = Undefined \<longrightarrow> ?r = NaN)
    \<and> (node_get n EXCLUSIVE_DURATION = Number (Fin 0) \<and> execution_time plan = Number (Fin 0) \<longrightarrow>
      ?r = NaN)"
    by (simp add: execution_time_def root_total_time_def calculateDuration_def)
  show ?thesis
    using pos unit rest by blast
qed

theorem duration_percent_rounded_witness:
  "truthy (executionTime (planStats
        \<lparr>planStats = \<lparr>executionTime = Number (Fin 200), maxDuration = Undefined,
           maxRows = Undefined, maxCost = Undefined\<rparr>, content = None\<rparr>))
   \<and> executionTimePercent (calculateDuration
        \<lparr>planStats = \<lparr>executionTime = Number (Fin 200), maxDuration = Undefined,
           maxRows = Undefined, maxCost = Undefined\<rparr>, content = None\<rparr>
        \<lparr>props = [(EXCLUSIVE_DURATION, Number (Fin 29))], workers = None\<rparr> initial) = Fin 14
   \<and> execution_time
        \<lparr>planStats = \<lparr>executionTime = Undefined, maxDuration = Undefined,
           maxRows = Undefined, maxCost = Undefined\<rparr>,
         content = Some \<lparr>Plan = Some \<lparr>props = [(ACTUAL_TOTAL_TIME, Number (Fin 200))],
           workers = None\<rparr>, maxTotalCost = Undefined\<rparr>\<rparr> = Number (Fin 200)
   \<and> executionTimePercent (calculateDuration
        \<lparr>planStats = \<lparr>executionTime = Undefined, maxDuration = Undefined,
           maxRows = Undefined, maxCost = Undefined\<rparr>,
         content = Some \<lparr>Plan = Some \<lparr>props = [(ACTUAL_TOTAL_TIME, Number (Fin 200))],
           workers = None\<rparr>, maxTotalCost = Undefined\<rparr>\<rparr>
        \<lparr>props = [(EXCLUSIVE_DURATION, Number (Fin 29))], workers = None\<rparr> initial) = Fin 14
   \<and> executionTimePercent (calculateDuration
        \<lparr>planStats = \<lparr>executionTime = Number (Fin 200), maxDuration = Undefined,
           maxRows = Undefined, maxCost = Undefined\<rparr>, content = None\<rparr>
        \<lparr>props = [], workers = None\<rparr> initial) = NaN
   \<and> executionTimePercent (calculateDuration
        \<lparr>planStats = \<lparr>executionTime = Undefined, maxDuration = Undefined,
           maxRows = Undefined, maxCost = Undefined\<rparr>, content = None\<rparr>
        \<lparr>props = [(EXCLUSIVE_DURATION, Number (Fin 29))], workers = None\<rparr> initial) = NaN"
proof -
  let ?p = "\<lparr>planStats = \<lparr>executionTime = Number (Fin 200), maxDuration = Undefined,
           maxRows = Undefined, maxCost = Undefined\<rparr>, content = None\<rparr>"
  let ?rt = "\<lparr>props = [(ACTUAL_TOTAL_TIME, Number (Fin 200))], workers = None\<rparr>"
  let ?c = "\<lparr>Plan = Some ?rt, maxTotalCost = Undefined\<rparr>"
  let ?q = "\<lparr>planStats = \<lparr>executionTime = Undefined, maxDuration = Undefined,
           maxRows = Undefined, maxCost = Undefined\<rparr>, content = Some ?c\<rparr>"
  let ?u = "\<lparr>planStats = \<lparr>executionTime = Undefined, maxDuration = Undefined,
           maxRows = Undefined, maxCost = Undefined\<rparr>, content = None\<rparr>"
  let ?n = "\<lparr>props = [(EXCLUSIVE_DURATION, Number (Fin 29))], workers = None\<rparr>"
  let ?e = "\<lparr>props = [], workers = None\<rparr>"
  have g: "node_get ?n EXCLUSIVE_DURATION = Number (Fin 29)"
    "node_get ?e EXCLUSIVE_DURATION = Undefined"
    "node_get ?rt ACTUAL_TOTAL_TIME = Number (Fin 200)"
    by (simp_all add: node_get_def)
  have tr: "truthy (executionTime (planStats ?p))" "\<not> truthy (executionTime (planStats ?q))"
    by simp_all
  have ep: "execution_time ?p = Number (Fin 200)"
    using duration_percent_rounded [of ?p ?c ?rt ?n initial 29 200] tr(1) by simp
  have eq: "execution_time ?q = Number (Fin 200)"
    using duration_percent_rounded [of ?q ?c ?rt ?n initial 29 200] tr(2) g(3) by simp
  have eu: "execution_time ?u = Undefined"
    by (simp add: execution_time_def root_total_time_def)
  have t1: "executionTimePercent (calculateDuration ?p ?n initial) = Fin 14"
    using duration_percent_rounded [of ?p ?c ?rt ?n initial 29 200] g(1) ep percent_29_200
    by simp
  have t2: "executionTimePercent (calculateDuration ?q ?n initial) = Fin 14"
    using duration_percent_rounded [of ?q ?c ?rt ?n initial 29 200] g(1) eq percent_29_200
    by simp
  have t3: "executionTimePercent (calculateDuration ?p ?e initial) = NaN"
    using duration_percent_rounded [of ?p ?c ?rt ?e initial 29 200] g(2) by simp
  have t4: "executionTimePercent (calculateDuration ?u ?n initial) = NaN"
    using duration_percent_rounded [of ?u ?c ?rt ?n initial 29 200] eu by simp
  show ?thesis
    using tr(1) eq t1 t2 t3 t4 by simp
qed

section \<open>Workers\<close>

lemma strict_eq_truthy:
  "truthy l \<Longrightarrow> strict_eq p l \<longleftrightarrow> p = l"
proof (cases l)
  case Undefined
  assume "truthy l"
  with Undefined show ?thesis by simp
next
  case (Number x)
  assume "truthy l"
  with Number show ?thesis
    by (cases p; cases x) (auto simp: num_eq_def)
qed

text \<open>
  Claim C9, as stated, fails: \<open>allWorkersLaunched\<close> does not compare the derived counts.
  A node under a gather that planned 3 workers, with per-worker records of 2 workers and no
  workers-launched property of its own, has a derived launched count of 2, which is truthy
  and differs from the planned count, and \<open>allWorkersLaunched\<close> is true.
\<close>

theorem all_workers_launched_counterexample:
  "workersLaunchedCount \<lparr>props = [(WORKERS_PLANNED_BY_GATHER, Number (Fin 3))],
      workers = Some [[], []]\<rparr> = Fin 2
   \<and> workersPlannedCount \<lparr>props = [(WORKERS_PLANNED_BY_GATHER, Number (Fin 3))],
      workers = Some [[], []]\<rparr> = Number (Fin 3)
   \<and> allWorkersLaunched \<lparr>props = [(WORKERS_PLANNED_BY_GATHER, Number (Fin 3))],
      workers = Some [[], []]\<rparr>
   \<and> \<not> (\<not> truthy_num (workersLaunchedCount \<lparr>props = [(WORKERS_PLANNED_BY_GATHER, Number (Fin 3))],
            workers = Some [[], []]\<rparr>)
        \<or> strict_eq (workersPlannedCount \<lparr>props = [(WORKERS_PLANNED_BY_GATHER, Number (Fin 3))],
            workers = Some [[], []]\<rparr>)
          (Number (workersLaunchedCount \<lparr>props = [(WORKERS_PLANNED_BY_GATHER, Number (Fin 3))],
            workers = Some [[], []]\<rparr>))
        \<or> strict_eq (node_get \<lparr>props = [(WORKERS_PLANNED_BY_GATHER, Number (Fin 3))],
            workers = Some [[], []]\<rparr> WORKERS_PLANNED)
          (Number (workersLaunchedCount \<lparr>props = [(WORKERS_PLANNED_BY_GATHER, Number (Fin 3))],
            workers = Some [[], []]\<rparr>)))"
  by (simp add: workersLaunchedCount_def workersPlannedCount_def allWorkersLaunched_def
      node_get_def num_eq_def)

text \<open>
  Claim C9, amended. The derived launched count is the length of the node's worker list
  when the list is present and \<open>NaN\<close>, not 0, when it is absent. \<open>allWorkersLaunched\<close> reads
  the node's own workers-launched and workers-planned properties, not the derived counts:
  it is true exactly when the workers-launched property is falsy or equals the
  workers-planned property, whatever the worker list is.
\<close>

theorem workers_launched:
  "(workers n = Some ws \<longrightarrow> workersLaunchedCount n = Fin (of_nat (length ws)))
   \<and> (workers n = None \<longrightarrow> workersLaunchedCount n = NaN \<and> workersLaunchedCount n \<noteq> Fin 0)
   \<and> (allWorkersLaunched n \<longleftrightarrow>
        node_get n WORKERS_LAUNCHED \<in> {Undefined, Number (Fin 0), Number NaN}
        \<or> node_get n WORKERS_PLANNED = node_get n WORKERS_LAUNCHED)
   \<and> allWorkersLaunched (n\<lparr>workers := w\<rparr>) = allWorkersLaunched n"
proof -
  have "allWorkersLaunched n \<longleftrightarrow>
        node_get n WORKERS_LAUNCHED \<in> {Undefined, Number (Fin 0), Number NaN}
        \<or> node_get n WORKERS_PLANNED = node_get n WORKERS_LAUNCHED"
  proof (cases "truthy (node_get n WORKERS_LAUNCHED)")
    case True
    have "node_get n WORKERS_LAUNCHED \<notin> {Undefined, Number (Fin 0), Number NaN}"
      using True unfolding truthy_iff .
    then show ?thesis
      unfolding allWorkersLaunched_def strict_eq_truthy [OF True] using True by blast
  next
    case False
    have "node_get n WORKERS_LAUNCHED \<in> {Undefined, Number (Fin 0), Number NaN}"
      using False unfolding truthy_iff by blast
    then show ?thesis
      unfolding allWorkersLaunched_def using False by blast
  qed
  moreover have "allWorkersLaunched (n\<lparr>workers := w\<rparr>) = allWorkersLaunched n"
    by (simp add: allWorkersLaunched_def node_get_def)
  ultimately show ?thesis
    by (simp add: workersLaunchedCount_def)
qed

theorem workers_launched_witness:
  "workers \<lparr>props = [(WORKERS_PLANNED, Number (Fin 3)), (WORKERS_LAUNCHED, Number (Fin 2))],
      workers = Some [[], []]\<rparr> = Some [[], []]
   \<and> workersLaunchedCount \<lparr>props = [(WORKERS_PLANNED, Number (Fin 3)),
        (WORKERS_LAUNCHED, Number (Fin 2))], workers = Some [[], []]\<rparr> = Fin 2
   \<and> \<not> allWorkersLaunched \<lparr>props = [(WORKERS_PLANNED, Number (Fin 3)),
        (WORKERS_LAUNCHED, Number (Fin 2))], workers = Some [[], []]\<rparr>
   \<and> workers \<lparr>props = [(WORKERS_PLANNED, Number (Fin 2)), (WORKERS_LAUNCHED, Number (Fin 2))],
      workers = None\<rparr> = None
   \<and> workersLaunchedCount \<lparr>props = [(WORKERS_PLANNED, Number (Fin 2)),
        (WORKERS_LAUNCHED, Number (Fin 2))], workers = None\<rparr> = NaN
   \<and> allWorkersLaunched \<lparr>props = [(WORKERS_PLANNED, Number (Fin 2)),
        (WORKERS_LAUNCHED, Number (Fin 2))], workers = None\<rparr>"
proof -
  let ?a = "\<lparr>props = [(WORKERS_PLANNED, Number (Fin 3)), (WORKERS_LAUNCHED, Number (Fin 2))],
      workers = Some [[], []]\<rparr>"
  let ?b = "\<lparr>props = [(WORKERS_PLANNED, Number (Fin 2)), (WORKERS_LAUNCHED, Number (Fin 2))],
      workers = None\<rparr>"
  have g: "node_get ?a WORKERS_LAUNCHED = Number (Fin 2)" "node_get ?a WORKERS_PLANNED = Number (Fin 3)"
    "node_get ?b WORKERS_LAUNCHED = Number (Fin 2)" "node_get ?b WORKERS_PLANNED = Number (Fin 2)"
    by (simp_all add: node_get_def)
  show ?thesis
    using workers_launched [of ?a "[[], []]"] workers_launched [of ?b "[]"] g by simp
qed

section \<open>Rows removed\<close>

lemma rowsRemovedProp_None:
  "rowsRemovedProp n = None \<longleftrightarrow>
     ROWS_REMOVED_BY_FILTER_REVISED \<notin> set (Object_keys n)
     \<and> ROWS_REMOVED_BY_JOIN_FILTER_REVISED \<notin> set (Object_keys n)"
  by (auto simp: rowsRemovedProp_def find_None_iff)

lemma find_Some_holds: "find P xs = Some x \<Longrightarrow> P x \<and> x \<in> set xs"
  by (induction xs) (auto split: if_splits)

lemma rowsRemovedProp_Some:
  assumes "rowsRemovedProp n = Some p"
  shows "p \<in> set (Object_keys n)"
    and "p = ROWS_REMOVED_BY_FILTER_REVISED \<or> p = ROWS_REMOVED_BY_JOIN_FILTER_REVISED"
  using find_Some_holds [OF assms [unfolded rowsRemovedProp_def]] by simp_all

lemma rowsRemovedProp_only:
  "ROWS_REMOVED_BY_FILTER_REVISED \<in> set (Object_keys n) \<Longrightarrow>
   ROWS_REMOVED_BY_JOIN_FILTER_REVISED \<notin> set (Object_keys n) \<Longrightarrow>
   rowsRemovedProp n = Some ROWS_REMOVED_BY_FILTER_REVISED"
  "ROWS_REMOVED_BY_JOIN_FILTER_REVISED \<in> set (Object_keys n) \<Longrightarrow>
   ROWS_REMOVED_BY_FILTER_REVISED \<notin> set (Object_keys n) \<Longrightarrow>
   rowsRemovedProp n = Some ROWS_REMOVED_BY_JOIN_FILTER_REVISED"
proof -
  assume a: "ROWS_REMOVED_BY_FILTER_REVISED \<in> set (Object_keys n)"
    "ROWS_REMOVED_BY_JOIN_FILTER_REVISED \<notin> set (Object_keys n)"
  then obtain p where p: "rowsRemovedProp n = Some p"
    using rowsRemovedProp_None [of n] by (cases "rowsRemovedProp n") auto
  from rowsRemovedProp_Some [OF p] a p
  show "rowsRemovedProp n = Some ROWS_REMOVED_BY_FILTER_REVISED" by auto
next
  assume a: "ROWS_REMOVED_BY_JOIN_FILTER_REVISED \<in> set (Object_keys n)"
    "ROWS_REMOVED_BY_FILTER_REVISED \<notin> set (Object_keys n)"
  then obtain p where p: "rowsRemovedProp n = Some p"
    using rowsRemovedProp_None [of n] by (cases "rowsRemovedProp n") auto
  from rowsRemovedProp_Some [OF p] a p
  show "rowsRemovedProp n = Some ROWS_REMOVED_BY_JOIN_FILTER_REVISED" by auto
qed

lemma digit_char_plain:
  "digit_char d \<noteq> CHR ''<''" "digit_char d \<noteq> CHR ''>''"
  "CHR ''<'' \<noteq> digit_char d" "CHR ''>'' \<noteq> digit_char d"
  by (simp_all add: digit_char_def)

lemma decimal_plain: "CHR ''<'' \<notin> set (decimal n) \<and> CHR ''>'' \<notin> set (decimal n)"
proof (induction n rule: decimal.induct)
  case (1 n)
  show ?case
  proof (cases "n < 10")
    case True
    then show ?thesis
      by (subst (1 2) decimal.simps) (simp add: digit_char_plain)
  next
    case False
    with 1 show ?thesis
      by (subst (1 2) decimal.simps) (simp add: digit_char_plain)
  qed
qed

lemma decimal_not_marker: "decimal n \<noteq> ''<1''" "decimal n \<noteq> ''>99''"
  using decimal_plain [of n] by auto

lemma count_or_absent_cases:
  "count_or_absent v \<Longrightarrow> v = Undefined \<or> (\<exists>x. v = Number (Fin x) \<and> 0 \<le> x \<and> is_double x)"
  by (cases v rule: count_or_absent.cases) auto

lemma removed_sum:
  assumes "0 \<le> r" "is_double r" "0 \<le> a" "is_double a" "0 < r + a"
  shows "(\<exists>t. jsadd (Fin r) (Fin a) = Fin t \<and> r \<le> t \<and> 0 < t) \<or> jsadd (Fin r) (Fin a) = PInf"
proof -
  have lr: "jsle (Fin r) (to_double (r + a))"
    using to_double_mono [of r "r + a"] assms(1,2,3) by (simp add: is_double_def)
  have la: "jsle (Fin a) (to_double (r + a))"
    using to_double_mono [of a "r + a"] assms(1,3,4) by (simp add: is_double_def)
  show ?thesis
  proof (cases "to_double (r + a)")
    case (Fin t)
    with lr la have "r \<le> t" "a \<le> t" by simp_all
    with assms(5) have "0 < t" by linarith
    with Fin \<open>r \<le> t\<close> show ?thesis by simp
  next
    case PInf
    then show ?thesis by simp
  next
    case NInf
    with lr show ?thesis by simp
  next
    case NaN
    with lr show ?thesis by simp
  qed
qed

lemma removed_percent:
  assumes "0 \<le> r" "is_double r" "0 \<le> a" "is_double a" "0 < r + a"
  shows "\<exists>y. jsmul (jsdiv (Fin r) (jsadd (Fin r) (Fin a))) (Fin 100) = Fin y \<and> 0 \<le> y \<and> y \<le> 100"
  using removed_sum [OF assms]
proof
  assume "\<exists>t. jsadd (Fin r) (Fin a) = Fin t \<and> r \<le> t \<and> 0 < t"
  then obtain t where t: "jsadd (Fin r) (Fin a) = Fin t" "r \<le> t" "0 < t" by blast
  from percent_unit [OF assms(1) t(2,3)] show ?thesis unfolding t(1) .
next
  assume "jsadd (Fin r) (Fin a) = PInf"
  then show ?thesis by simp
qed

lemma Math_floor_unit:
  assumes "\<exists>y. x = Fin y \<and> 0 \<le> y \<and> y \<le> 100"
  shows "\<exists>k. Math_floor x = Fin (of_int k) \<and> 0 \<le> k \<and> k \<le> 100"
proof -
  from assms obtain y where y: "x = Fin y" "0 \<le> y" "y \<le> 100" by blast
  have "0 \<le> \<lfloor>y\<rfloor>" using y(2) by simp
  moreover have "\<lfloor>y\<rfloor> \<le> 100" using y(3) by (simp add: floor_le_iff)
  ultimately show ?thesis using y(1) by simp
qed

lemma calculateRowsRemoved_Some:
  assumes "rowsRemovedProp n = Some p"
  shows "rowsRemoved (calculateRowsRemoved n s) = node_get n p"
    and "rowsRemovedPercent (calculateRowsRemoved n s) =
      Math_floor (jsmul (jsdiv (toNumber (node_get n p))
        (jsadd (toNumber (node_get n p)) (toNumber (node_get n ACTUAL_ROWS)))) (Fin 100))"
    and "rowsRemovedPercentString (calculateRowsRemoved n s) =
      Some (if num_eq (rowsRemovedPercent (calculateRowsRemoved n s)) (Fin 100) then ''>99''
            else if num_eq (rowsRemovedPercent (calculateRowsRemoved n s)) (Fin 0) then ''<1''
            else number_toString (rowsRemovedPercent (calculateRowsRemoved n s)))"
  using assms by (simp_all add: calculateRowsRemoved_def Let_def)

lemma percent_string:
  assumes "0 \<le> k"
  shows "(if num_eq (Fin (of_int k)) (Fin 100) then ''>99''
          else if num_eq (Fin (of_int k)) (Fin 0) then ''<1''
          else number_toString (Fin (of_int k))) =
         (if k = 100 then ''>99'' else if k = 0 then ''<1'' else decimal (nat k))"
  using assms by (simp add: num_eq_def)

lemma calculateRowsRemoved_counts:
  assumes "rowsRemovedProp n = Some p" "node_get n p = Number (Fin r)"
    "node_get n ACTUAL_ROWS = Number (Fin a)"
    "0 \<le> r" "is_double r" "0 \<le> a" "is_double a" "0 < r + a"
  shows "\<exists>k. rowsRemovedPercent (calculateRowsRemoved n s) = Fin (of_int k) \<and> 0 \<le> k \<and> k \<le> 100
           \<and> rowsRemovedPercentString (calculateRowsRemoved n s) =
               Some (if k = 100 then ''>99'' else if k = 0 then ''<1'' else decimal (nat k))"
proof -
  have pct: "rowsRemovedPercent (calculateRowsRemoved n s) =
      Math_floor (jsmul (jsdiv (Fin r) (jsadd (Fin r) (Fin a))) (Fin 100))"
    using calculateRowsRemoved_Some(2) [OF assms(1), of s] assms(2,3) by simp
  from Math_floor_unit [OF removed_percent [OF assms(4-8)]]
  obtain k where k: "rowsRemovedPercent (calculateRowsRemoved n s) = Fin (of_int k)"
      "0 \<le> k" "k \<le> 100"
    unfolding pct [symmetric] by blast
  have "rowsRemovedPercentString (calculateRowsRemoved n s) =
      Some (if k = 100 then ''>99'' else if k = 0 then ''<1'' else decimal (nat k))"
    unfolding calculateRowsRemoved_Some(3) [OF assms(1)] k(1) percent_string [OF k(2)] ..
  with k show ?thesis by blast
qed

lemma calculateRowsRemoved_defined:
  assumes counts: "count_or_absent (node_get n ROWS_REMOVED_BY_FILTER_REVISED)"
      "count_or_absent (node_get n ROWS_REMOVED_BY_JOIN_FILTER_REVISED)"
      "count_or_absent (node_get n ACTUAL_ROWS)"
    and init: "rowsRemovedPercent s = NaN"
    and defined: "rowsRemovedPercent (calculateRowsRemoved n s) \<noteq> NaN"
  shows "\<exists>p r a. rowsRemovedProp n = Some p \<and> node_get n p = Number (Fin r)
           \<and> node_get n ACTUAL_ROWS = Number (Fin a) \<and> 0 < r + a"
proof -
  obtain p where p: "rowsRemovedProp n = Some p"
    using init defined by (cases "rowsRemovedProp n") (auto simp: calculateRowsRemoved_def)
  have cp: "count_or_absent (node_get n p)"
    using rowsRemovedProp_Some(2) [OF p] counts(1,2) by auto
  note pct = calculateRowsRemoved_Some(2) [OF p, of s]
  obtain r where r: "node_get n p = Number (Fin r)" "0 \<le> r"
    using count_or_absent_cases [OF cp] defined pct by auto
  obtain a where a: "node_get n ACTUAL_ROWS = Number (Fin a)" "0 \<le> a"
    using count_or_absent_cases [OF counts(3)] defined pct r by auto
  have "r + a \<noteq> 0"
  proof
    assume "r + a = 0"
    with r(2) a(2) have "r = 0" "a = 0" by simp_all
    with defined pct r(1) a(1) show False by simp
  qed
  then have "0 < r + a" using r(2) a(2) by simp
  with p r a show ?thesis by blast
qed

lemma calculateRowsRemoved_defined_conv:
  assumes counts: "count_or_absent (node_get n ROWS_REMOVED_BY_FILTER_REVISED)"
      "count_or_absent (node_get n ROWS_REMOVED_BY_JOIN_FILTER_REVISED)"
      "count_or_absent (node_get n ACTUAL_ROWS)"
    and h: "rowsRemovedProp n = Some p" "node_get n p = Number (Fin r)"
      "node_get n ACTUAL_ROWS = Number (Fin a)" "0 < r + a"
  shows "rowsRemovedPercent (calculateRowsRemoved n s) \<noteq> NaN"
proof -
  have "count_or_absent (node_get n p)"
    using rowsRemovedProp_Some(2) [OF h(1)] counts(1,2) by auto
  then have r: "0 \<le> r" "is_double r" using h(2) by simp_all
  have a: "0 \<le> a" "is_double a" using counts(3) h(3) by simp_all
  from calculateRowsRemoved_counts [OF h(1-3) r a h(4), of s] show ?thesis by auto
qed

lemma floor_percent_999999:
  "Math_floor (jsmul (jsdiv (Fin 999999) (jsadd (Fin 999999) (Fin 1))) (Fin 100)) = Fin 99"
proof -
  have a: "to_double (999999 / 1000000) = Fin (9007190247541737 / 2 ^ 53)"
    by (subst to_double_eval [of "- 1"]) (simp_all add: rhe_def Let_def)
  have b: "to_double (9007190247541737 / 2 ^ 53 * 100) = Fin (7036867380891982 / 2 ^ 46)"
    by (subst to_double_eval [of 6]) (simp_all add: rhe_def Let_def)
  have "jsadd (Fin 999999) (Fin 1) = Fin 1000000" by simp
  moreover have "jsdiv (Fin 999999) (Fin 1000000) = Fin (9007190247541737 / 2 ^ 53)"
    using a by simp
  moreover have "jsmul (Fin (9007190247541737 / 2 ^ 53)) (Fin 100) = Fin (7036867380891982 / 2 ^ 46)"
    using b by simp
  moreover have "Math_floor (Fin (7036867380891982 / 2 ^ 46)) = Fin 99" by simp
  ultimately show ?thesis by simp
qed

lemma floor_percent_1:
  "Math_floor (jsmul (jsdiv (Fin 1) (jsadd (Fin 1) (Fin 999999))) (Fin 100)) = Fin 0"
proof -
  have a: "to_double (1 / 1000000) = Fin (4722366482869645 / 2 ^ 72)"
    by (subst to_double_eval [of "- 20"]) (simp_all add: rhe_def Let_def)
  have b: "to_double (4722366482869645 / 2 ^ 72 * 100) = Fin (7378697629483820 / 2 ^ 66)"
    by (subst to_double_eval [of "- 14"]) (simp_all add: rhe_def Let_def)
  have "jsadd (Fin 1) (Fin 999999) = Fin 1000000" by simp
  moreover have "jsdiv (Fin 1) (Fin 1000000) = Fin (4722366482869645 / 2 ^ 72)"
    using a by simp
  moreover have "jsmul (Fin (4722366482869645 / 2 ^ 72)) (Fin 100) = Fin (7378697629483820 / 2 ^ 66)"
    using b by simp
  moreover have "Math_floor (Fin (7378697629483820 / 2 ^ 66)) = Fin 0" by simp
  ultimately show ?thesis by simp
qed

lemma floor_percent_29:
  "Math_floor (jsmul (jsdiv (Fin 29) (jsadd (Fin 29) (Fin 71))) (Fin 100)) = Fin 28"
proof -
  have a: "to_double (29 / 100) = Fin (5224175567749775 / 2 ^ 54)"
    by (subst to_double_eval [of "- 2"]) (simp_all add: rhe_def Let_def)
  have b: "to_double (5224175567749775 / 2 ^ 54 * 100) = Fin (8162774324609023 / 2 ^ 48)"
    by (subst to_double_eval [of 4]) (simp_all add: rhe_def Let_def)
  have "jsadd (Fin 29) (Fin 71) = Fin 100" by simp
  moreover have "jsdiv (Fin 29) (Fin 100) = Fin (5224175567749775 / 2 ^ 54)"
    using a by simp
  moreover have "jsmul (Fin (5224175567749775 / 2 ^ 54)) (Fin 100) = Fin (8162774324609023 / 2 ^ 48)"
    using b by simp
  moreover have "Math_floor (Fin (8162774324609023 / 2 ^ 48)) = Fin 28" by simp
  ultimately show ?thesis by simp
qed

lemma floor_percent_50:
  "Math_floor (jsmul (jsdiv (Fin 50) (jsadd (Fin 50) (Fin 50))) (Fin 100)) = Fin 50"
  by simp

lemma floor_percent_all:
  assumes "0 < r" "is_double r"
  shows "Math_floor (jsmul (jsdiv (Fin r) (jsadd (Fin r) (Fin 0))) (Fin 100)) = Fin 100"
  using assms by (simp add: is_double_def)

text \<open>
  Claim C3, as stated, fails in its second example: with 999999 rows removed and 1 actual
  row the floor is 99 and the display string is \<open>99\<close>, not \<open>>99\<close>.
\<close>

theorem rows_removed_string_counterexample:
  "rowsRemovedPercent (calculateRowsRemoved
      \<lparr>props = [(ROWS_REMOVED_BY_FILTER_REVISED, Number (Fin 999999)),
                (ACTUAL_ROWS, Number (Fin 1))], workers = None\<rparr> initial) = Fin 99
   \<and> rowsRemovedPercentString (calculateRowsRemoved
      \<lparr>props = [(ROWS_REMOVED_BY_FILTER_REVISED, Number (Fin 999999)),
                (ACTUAL_ROWS, Number (Fin 1))], workers = None\<rparr> initial) = Some ''99''
   \<and> rowsRemovedPercentString (calculateRowsRemoved
      \<lparr>props = [(ROWS_REMOVED_BY_FILTER_REVISED, Number (Fin 999999)),
                (ACTUAL_ROWS, Number (Fin 1))], workers = None\<rparr> initial) \<noteq> Some ''>99''"
proof -
  let ?n = "\<lparr>props = [(ROWS_REMOVED_BY_FILTER_REVISED, Number (Fin 999999)),
                (ACTUAL_ROWS, Number (Fin 1))], workers = None\<rparr>"
  have p: "rowsRemovedProp ?n = Some ROWS_REMOVED_BY_FILTER_REVISED"
    by (simp add: rowsRemovedProp_def Object_keys_def)
  have g: "node_get ?n ROWS_REMOVED_BY_FILTER_REVISED = Number (Fin 999999)"
    "node_get ?n ACTUAL_ROWS = Number (Fin 1)"
    by (simp_all add: node_get_def)
  have pct: "rowsRemovedPercent (calculateRowsRemoved ?n initial) = Fin 99"
    unfolding calculateRowsRemoved_Some(2) [OF p] g toNumber.simps by (rule floor_percent_999999)
  have "rowsRemovedPercentString (calculateRowsRemoved ?n initial) = Some ''99''"
    unfolding calculateRowsRemoved_Some(3) [OF p] pct
    by (simp add: num_eq_def decimal.simps digit_char_def)
  with pct show ?thesis by simp
qed

text \<open>
  Claim C3, amended. For a node whose rows-removed key holds a count \<open>r\<close> and whose
  actual-rows count is \<open>a\<close>, with \<open>r + a > 0\<close>, the rows-removed percent is
  \<open>_.floor((r / (r + a)) * 100)\<close> as double arithmetic computes it, an integer from 0 to
  100; the display string is \<open><1\<close> exactly when that integer is 0, \<open>>99\<close> exactly when it
  is 100, as it is when no actual row is left, and the plain decimal integer otherwise. With
  1 removed and 999999 actual the string is \<open><1\<close>; with 999999 removed and 1 actual it is
  \<open>99\<close>; with 50 and 50 it is \<open>50\<close>.
\<close>

theorem rows_removed_percent_string:
  assumes "rowsRemovedProp n = Some p" and "node_get n p = Number (Fin r)"
    and "node_get n ACTUAL_ROWS = Number (Fin a)"
    and "0 \<le> r" and "is_double r" and "0 \<le> a" and "is_double a" and "0 < r + a"
  shows "rowsRemovedPercent (calculateRowsRemoved n s) =
           Math_floor (jsmul (jsdiv (Fin r) (jsadd (Fin r) (Fin a))) (Fin 100))
       \<and> (\<exists>k. rowsRemovedPercent (calculateRowsRemoved n s) = Fin (of_int k)
            \<and> 0 \<le> k \<and> k \<le> 100
            \<and> (rowsRemovedPercentString (calculateRowsRemoved n s) = Some ''<1'' \<longleftrightarrow> k = 0)
            \<and> (rowsRemovedPercentString (calculateRowsRemoved n s) = Some ''>99'' \<longleftrightarrow> k = 100)
            \<and> (k \<noteq> 0 \<and> k \<noteq> 100 \<longrightarrow>
                 rowsRemovedPercentString (calculateRowsRemoved n s) = Some (decimal (nat k))))
       \<and> (a = 0 \<longrightarrow> rowsRemovedPercent (calculateRowsRemoved n s) = Fin 100)"
proof -
  have pct: "rowsRemovedPercent (calculateRowsRemoved n s) =
      Math_floor (jsmul (jsdiv (Fin r) (jsadd (Fin r) (Fin a))) (Fin 100))"
    using calculateRowsRemoved_Some(2) [OF assms(1), of s] assms(2,3) by simp
  from calculateRowsRemoved_counts [OF assms, of s]
  obtain k where k: "rowsRemovedPercent (calculateRowsRemoved n s) = Fin (of_int k)"
      "0 \<le> k" "k \<le> 100"
      "rowsRemovedPercentString (calculateRowsRemoved n s) =
         Some (if k = 100 then ''>99'' else if k = 0 then ''<1'' else decimal (nat k))"
    by blast
  have "(rowsRemovedPercentString (calculateRowsRemoved n s) = Some ''<1'' \<longleftrightarrow> k = 0)
      \<and> (rowsRemovedPercentString (calculateRowsRemoved n s) = Some ''>99'' \<longleftrightarrow> k = 100)
      \<and> (k \<noteq> 0 \<and> k \<noteq> 100 \<longrightarrow>
           rowsRemovedPercentString (calculateRowsRemoved n s) = Some (decimal (nat k)))"
    unfolding k(4) using decimal_not_marker [of "nat k"] by auto
  with k(1-3) have ex: "\<exists>k. rowsRemovedPercent (calculateRowsRemoved n s) = Fin (of_int k)
            \<and> 0 \<le> k \<and> k \<le> 100
            \<and> (rowsRemovedPercentString (calculateRowsRemoved n s) = Some ''<1'' \<longleftrightarrow> k = 0)
            \<and> (rowsRemovedPercentString (calculateRowsRemoved n s) = Some ''>99'' \<longleftrightarrow> k = 100)
            \<and> (k \<noteq> 0 \<and> k \<noteq> 100 \<longrightarrow>
                 rowsRemovedPercentString (calculateRowsRemoved n s) = Some (decimal (nat k)))"
    by blast
  have all: "rowsRemovedPercent (calculateRowsRemoved n s) = Fin 100" if "a = 0"
  proof -
    from that assms(8) have "0 < r" by simp
    from floor_percent_all [OF this assms(5)] show ?thesis unfolding pct that .
  qed
  show ?thesis
    using pct ex all by blast
qed

theorem rows_removed_percent_string_witness:
  "rowsRemovedProp \<lparr>props = [(ROWS_REMOVED_BY_FILTER_REVISED, Number (Fin 1)),
        (ACTUAL_ROWS, Number (Fin 999999))], workers = None\<rparr> = Some ROWS_REMOVED_BY_FILTER_REVISED
   \<and> is_double 1 \<and> is_double 999999 \<and> is_double 50 \<and> is_double 7 \<and> is_double 29 \<and> is_double 71
   \<and> rowsRemovedPercentString (calculateRowsRemoved
        \<lparr>props = [(ROWS_REMOVED_BY_FILTER_REVISED, Number (Fin 1)),
          (ACTUAL_ROWS, Number (Fin 999999))], workers = None\<rparr> initial) = Some ''<1''
   \<and> rowsRemovedProp \<lparr>props = [(ACTUAL_ROWS, Number (Fin 1)),
        (ROWS_REMOVED_BY_JOIN_FILTER_REVISED, Number (Fin 999999))], workers = None\<rparr>
        = Some ROWS_REMOVED_BY_JOIN_FILTER_REVISED
   \<and> rowsRemovedPercentString (calculateRowsRemoved
        \<lparr>props = [(ACTUAL_ROWS, Number (Fin 1)),
          (ROWS_REMOVED_BY_JOIN_FILTER_REVISED, Number (Fin 999999))], workers = None\<rparr> initial)
        = Some ''99''
   \<and> rowsRemovedPercentString (calculateRowsRemoved
        \<lparr>props = [(ROWS_REMOVED_BY_FILTER_REVISED, Number (Fin 50)),
          (ACTUAL_ROWS, Number (Fin 50))], workers = None\<rparr> initial) = Some ''50''
   \<and> rowsRemovedPercentString (calculateRowsRemoved
        \<lparr>props = [(ROWS_REMOVED_BY_FILTER_REVISED, Number (Fin 7)),
          (ACTUAL_ROWS, Number (Fin 0))], workers = None\<rparr> initial) = Some ''>99''
   \<and> rowsRemovedPercentString (calculateRowsRemoved
        \<lparr>props = [(ROWS_REMOVED_BY_FILTER_REVISED, Number (Fin 29)),
          (ACTUAL_ROWS, Number (Fin 71))], workers = None\<rparr> initial) = Some ''28''"
proof -
  let ?n1 = "\<lparr>props = [(ROWS_REMOVED_BY_FILTER_REVISED, Number (Fin 1)),
        (ACTUAL_ROWS, Number (Fin 999999))], workers = None\<rparr>"
  let ?n2 = "\<lparr>props = [(ACTUAL_ROWS, Number (Fin 1)),
        (ROWS_REMOVED_BY_JOIN_FILTER_REVISED, Number (Fin 999999))], workers = None\<rparr>"
  let ?n3 = "\<lparr>props = [(ROWS_REMOVED_BY_FILTER_REVISED, Number (Fin 50)),
          (ACTUAL_ROWS, Number (Fin 50))], workers = None\<rparr>"
  let ?n4 = "\<lparr>props = [(ROWS_REMOVED_BY_FILTER_REVISED, Number (Fin 7)),
          (ACTUAL_ROWS, Number (Fin 0))], workers = None\<rparr>"
  let ?n5 = "\<lparr>props = [(ROWS_REMOVED_BY_FILTER_REVISED, Number (Fin 29)),
          (ACTUAL_ROWS, Number (Fin 71))], workers = None\<rparr>"
  have p: "rowsRemovedProp ?n1 = Some ROWS_REMOVED_BY_FILTER_REVISED"
    "rowsRemovedProp ?n2 = Some ROWS_REMOVED_BY_JOIN_FILTER_REVISED"
    "rowsRemovedProp ?n3 = Some ROWS_REMOVED_BY_FILTER_REVISED"
    "rowsRemovedProp ?n4 = Some ROWS_REMOVED_BY_FILTER_REVISED"
    "rowsRemovedProp ?n5 = Some ROWS_REMOVED_BY_FILTER_REVISED"
    by (simp_all add: rowsRemovedProp_def Object_keys_def)
  have g: "node_get ?n1 ROWS_REMOVED_BY_FILTER_REVISED = Number (Fin 1)"
    "node_get ?n1 ACTUAL_ROWS = Number (Fin 999999)"
    "node_get ?n2 ROWS_REMOVED_BY_JOIN_FILTER_REVISED = Number (Fin 999999)"
    "node_get ?n2 ACTUAL_ROWS = Number (Fin 1)"
    "node_get ?n3 ROWS_REMOVED_BY_FILTER_REVISED = Number (Fin 50)"
    "node_get ?n3 ACTUAL_ROWS = Number (Fin 50)"
    "node_get ?n4 ROWS_REMOVED_BY_FILTER_REVISED = Number (Fin 7)"
    "node_get ?n4 ACTUAL_ROWS = Number (Fin 0)"
    "node_get ?n5 ROWS_REMOVED_BY_FILTER_REVISED = Number (Fin 29)"
    "node_get ?n5 ACTUAL_ROWS = Number (Fin 71)"
    by (simp_all add: node_get_def)
  have d: "is_double 1" "is_double 999999" "is_double 50" "is_double 7" "is_double 0"
    "is_double 29" "is_double 71"
    by (simp_all add: is_double_def)
  have dec: "decimal 99 = ''99''" "decimal 50 = ''50''" "decimal 28 = ''28''"
    by (simp_all add: decimal.simps digit_char_def)
  have t1: "rowsRemovedPercentString (calculateRowsRemoved ?n1 initial) = Some ''<1''"
    using rows_removed_percent_string [OF p(1) g(1,2) _ d(1) _ d(2), of initial]
    unfolding floor_percent_1 by auto
  have t2: "rowsRemovedPercentString (calculateRowsRemoved ?n2 initial) = Some ''99''"
    using rows_removed_percent_string [OF p(2) g(3,4) _ d(2) _ d(1), of initial]
    unfolding floor_percent_999999 by (auto simp: dec)
  have t3: "rowsRemovedPercentString (calculateRowsRemoved ?n3 initial) = Some ''50''"
    using rows_removed_percent_string [OF p(3) g(5,6) _ d(3) _ d(3), of initial]
    unfolding floor_percent_50 by (auto simp: dec)
  have t4: "rowsRemovedPercentString (calculateRowsRemoved ?n4 initial) = Some ''>99''"
    using rows_removed_percent_string [OF p(4) g(7,8) _ d(4) _ d(5), of initial]
    by auto
  have t5: "rowsRemovedPercentString (calculateRowsRemoved ?n5 initial) = Some ''28''"
    using rows_removed_percent_string [OF p(5) g(9,10) _ d(6) _ d(7), of initial]
    unfolding floor_percent_29 by (auto simp: dec)
  show ?thesis
    using p(1,2) d t1 t2 t3 t4 t5 by simp
qed

text \<open>
  Claim C4. The removed count is read from whichever of the two rows-removed keys the node
  has. For row counts (absent, or finite doubles that are not negative) the rows-removed percent of a
  component whose percent was undefined before the calculation is defined only when a
  rows-removed key is present with a count, the actual-rows count is present, and their
  sum is positive; with neither key the calculation changes nothing, and in every other
  case the percent is \<open>NaN\<close>, not 0.
\<close>

theorem rows_removed_defined_iff:
  assumes "count_or_absent (node_get n ROWS_REMOVED_BY_FILTER_REVISED)"
    and "count_or_absent (node_get n ROWS_REMOVED_BY_JOIN_FILTER_REVISED)"
    and "count_or_absent (node_get n ACTUAL_ROWS)"
    and "rowsRemovedPercent s = NaN"
  shows "(ROWS_REMOVED_BY_FILTER_REVISED \<in> set (Object_keys n)
            \<and> ROWS_REMOVED_BY_JOIN_FILTER_REVISED \<notin> set (Object_keys n) \<longrightarrow>
          rowsRemoved (calculateRowsRemoved n s) = node_get n ROWS_REMOVED_BY_FILTER_REVISED)
       \<and> (ROWS_REMOVED_BY_JOIN_FILTER_REVISED \<in> set (Object_keys n)
            \<and> ROWS_REMOVED_BY_FILTER_REVISED \<notin> set (Object_keys n) \<longrightarrow>
          rowsRemoved (calculateRowsRemoved n s) = node_get n ROWS_REMOVED_BY_JOIN_FILTER_REVISED)
       \<and> (ROWS_REMOVED_BY_FILTER_REVISED \<notin> set (Object_keys n)
            \<and> ROWS_REMOVED_BY_JOIN_FILTER_REVISED \<notin> set (Object_keys n) \<longrightarrow>
          calculateRowsRemoved n s = s)
       \<and> (rowsRemovedPercent (calculateRowsRemoved n s) \<noteq> NaN \<longleftrightarrow>
            (\<exists>p r a. rowsRemovedProp n = Some p \<and> node_get n p = Number (Fin r)
               \<and> node_get n ACTUAL_ROWS = Number (Fin a) \<and> 0 < r + a))
       \<and> (rowsRemovedPercent (calculateRowsRemoved n s) = NaN \<longrightarrow>
            rowsRemovedPercent (calculateRowsRemoved n s) \<noteq> Fin 0)"
proof -
  have k1: "rowsRemoved (calculateRowsRemoved n s) = node_get n ROWS_REMOVED_BY_FILTER_REVISED"
    if "ROWS_REMOVED_BY_FILTER_REVISED \<in> set (Object_keys n)"
      "ROWS_REMOVED_BY_JOIN_FILTER_REVISED \<notin> set (Object_keys n)"
    using rowsRemovedProp_only(1) [OF that] by (simp add: calculateRowsRemoved_def Let_def)
  have k2: "rowsRemoved (calculateRowsRemoved n s) = node_get n ROWS_REMOVED_BY_JOIN_FILTER_REVISED"
    if "ROWS_REMOVED_BY_JOIN_FILTER_REVISED \<in> set (Object_keys n)"
      "ROWS_REMOVED_BY_FILTER_REVISED \<notin> set (Object_keys n)"
    using rowsRemovedProp_only(2) [OF that] by (simp add: calculateRowsRemoved_def Let_def)
  have k3: "calculateRowsRemoved n s = s"
    if "ROWS_REMOVED_BY_FILTER_REVISED \<notin> set (Object_keys n)"
      "ROWS_REMOVED_BY_JOIN_FILTER_REVISED \<notin> set (Object_keys n)"
    using that rowsRemovedProp_None [of n] by (simp add: calculateRowsRemoved_def)
  have iff: "rowsRemovedPercent (calculateRowsRemoved n s) \<noteq> NaN \<longleftrightarrow>
            (\<exists>p r a. rowsRemovedProp n = Some p \<and> node_get n p = Number (Fin r)
               \<and> node_get n ACTUAL_ROWS = Number (Fin a) \<and> 0 < r + a)"
    using calculateRowsRemoved_defined_conv [OF assms(1-3), of _ _ _ s]
      calculateRowsRemoved_defined [OF assms] by blast
  show ?thesis
    using k1 k2 k3 iff by simp
qed

theorem rows_removed_defined_iff_witness:
  "count_or_absent (node_get \<lparr>props = [(ROWS_REMOVED_BY_FILTER_REVISED, Number (Fin 30)),
        (ACTUAL_ROWS, Number (Fin 70))], workers = None\<rparr> ROWS_REMOVED_BY_FILTER_REVISED)
   \<and> count_or_absent (node_get \<lparr>props = [(ROWS_REMOVED_BY_FILTER_REVISED, Number (Fin 30)),
        (ACTUAL_ROWS, Number (Fin 70))], workers = None\<rparr> ROWS_REMOVED_BY_JOIN_FILTER_REVISED)
   \<and> count_or_absent (node_get \<lparr>props = [(ROWS_REMOVED_BY_FILTER_REVISED, Number (Fin 30)),
        (ACTUAL_ROWS, Number (Fin 70))], workers = None\<rparr> ACTUAL_ROWS)
   \<and> rowsRemovedPercent initial = NaN
   \<and> rowsRemoved (calculateRowsRemoved \<lparr>props = [(ROWS_REMOVED_BY_FILTER_REVISED, Number (Fin 30)),
        (ACTUAL_ROWS, Number (Fin 70))], workers = None\<rparr> initial) = Number (Fin 30)
   \<and> rowsRemovedPercent (calculateRowsRemoved \<lparr>props = [(ROWS_REMOVED_BY_FILTER_REVISED,
        Number (Fin 30)), (ACTUAL_ROWS, Number (Fin 70))], workers = None\<rparr> initial) \<noteq> NaN
   \<and> calculateRowsRemoved \<lparr>props = [(ACTUAL_ROWS, Number (Fin 70))], workers = None\<rparr> initial
        = initial
   \<and> rowsRemovedPercent (calculateRowsRemoved \<lparr>props = [(ROWS_REMOVED_BY_JOIN_FILTER_REVISED,
        Number (Fin 0)), (ACTUAL_ROWS, Number (Fin 0))], workers = None\<rparr> initial) = NaN
   \<and> rowsRemoved (calculateRowsRemoved \<lparr>props = [(ROWS_REMOVED_BY_JOIN_FILTER_REVISED,
        Number (Fin 5))], workers = None\<rparr> initial) = Number (Fin 5)
   \<and> rowsRemovedPercent (calculateRowsRemoved \<lparr>props = [(ROWS_REMOVED_BY_JOIN_FILTER_REVISED,
        Number (Fin 5))], workers = None\<rparr> initial) = NaN"
proof -
  let ?n1 = "\<lparr>props = [(ROWS_REMOVED_BY_FILTER_REVISED, Number (Fin 30)),
        (ACTUAL_ROWS, Number (Fin 70))], workers = None\<rparr>"
  let ?n2 = "\<lparr>props = [(ACTUAL_ROWS, Number (Fin 70))], workers = None\<rparr>"
  let ?n3 = "\<lparr>props = [(ROWS_REMOVED_BY_JOIN_FILTER_REVISED, Number (Fin 0)),
        (ACTUAL_ROWS, Number (Fin 0))], workers = None\<rparr>"
  let ?n4 = "\<lparr>props = [(ROWS_REMOVED_BY_JOIN_FILTER_REVISED, Number (Fin 5))], workers = None\<rparr>"
  have init: "rowsRemovedPercent initial = NaN"
    by (simp add: initial_def)
  have c1: "count_or_absent (node_get ?n1 ROWS_REMOVED_BY_FILTER_REVISED)"
    "count_or_absent (node_get ?n1 ROWS_REMOVED_BY_JOIN_FILTER_REVISED)"
    "count_or_absent (node_get ?n1 ACTUAL_ROWS)"
    by (simp_all add: node_get_def)
  have c2: "count_or_absent (node_get ?n2 ROWS_REMOVED_BY_FILTER_REVISED)"
    "count_or_absent (node_get ?n2 ROWS_REMOVED_BY_JOIN_FILTER_REVISED)"
    "count_or_absent (node_get ?n2 ACTUAL_ROWS)"
    by (simp_all add: node_get_def)
  have c3: "count_or_absent (node_get ?n3 ROWS_REMOVED_BY_FILTER_REVISED)"
    "count_or_absent (node_get ?n3 ROWS_REMOVED_BY_JOIN_FILTER_REVISED)"
    "count_or_absent (node_get ?n3 ACTUAL_ROWS)"
    by (simp_all add: node_get_def)
  have c4: "count_or_absent (node_get ?n4 ROWS_REMOVED_BY_FILTER_REVISED)"
    "count_or_absent (node_get ?n4 ROWS_REMOVED_BY_JOIN_FILTER_REVISED)"
    "count_or_absent (node_get ?n4 ACTUAL_ROWS)"
    by (simp_all add: node_get_def)
  have p: "rowsRemovedProp ?n1 = Some ROWS_REMOVED_BY_FILTER_REVISED"
    "rowsRemovedProp ?n3 = Some ROWS_REMOVED_BY_JOIN_FILTER_REVISED"
    "rowsRemovedProp ?n4 = Some ROWS_REMOVED_BY_JOIN_FILTER_REVISED"
    by (simp_all add: rowsRemovedProp_def Object_keys_def)
  have t1: "rowsRemoved (calculateRowsRemoved ?n1 initial) = Number (Fin 30)
      \<and> rowsRemovedPercent (calculateRowsRemoved ?n1 initial) \<noteq> NaN"
    using rows_removed_defined_iff [OF c1 init] p(1)
    by (simp add: Object_keys_def node_get_def)
  have t2: "calculateRowsRemoved ?n2 initial = initial"
    using rows_removed_defined_iff [OF c2 init] by (simp add: Object_keys_def)
  have t3: "rowsRemovedPercent (calculateRowsRemoved ?n3 initial) = NaN"
    using rows_removed_defined_iff [OF c3 init] p(2) by (simp add: node_get_def)
  have t4: "rowsRemoved (calculateRowsRemoved ?n4 initial) = Number (Fin 5)
      \<and> rowsRemovedPercent (calculateRowsRemoved ?n4 initial) = NaN"
    using rows_removed_defined_iff [OF c4 init] p(3)
    by (simp add: Object_keys_def node_get_def)
  show ?thesis
    using c1 init t1 t2 t3 t4 by simp
qed

end
